theory Spec2Isabelle
  imports Complex_Main "HOL-Library.Sublist"
begin

section \<open>JavaScript values\<close>

text \<open>
  The rows handed to the renderers are JSON objects whose fields hold dynamic values.
  A number is a double: \<open>Fin q\<close> holds its exact value as a rational, beside \<open>NaN\<close> and
  the two infinities, and every product and quotient is rounded to the nearest double, ties
  to even, as the language does. The two zeros are the one value \<open>Fin 0\<close>: the code
  divides by \<open>1000\<close> and by \<open>Math.max(..., 1)\<close> only, and \<open>-0\<close> tests, prints and
  compares as \<open>0\<close>.
  An object is the list of its own enumerable properties in the order in which
  \<open>for ... in\<close> enumerates them (for names that are not array indices this is the
  insertion order); a lookup reads the first entry under a name. A string is the list of
  its code units, which the names of the model take below 256.
\<close>

datatype jsnum = NaN | Fin rat | PosInf | NegInf

datatype jsval =
    Undefined
  | Null
  | Bool bool
  | Num jsnum
  | Str string
  | Arr "jsval list"
  | Obj "(string \<times> jsval) list"

type_synonym obj = "(string \<times> jsval) list"

text \<open>
  Two conversions of the language are parameters of the model: the text of a number that
  is not an integer below \<open>2^53\<close> in magnitude (\<open>Number::toString\<close>, the shortest digits
  that read back as the same double), and the number read from a string
  (\<open>StringToNumber\<close>).
\<close>

record runtime =
  number_to_string :: "rat \<Rightarrow> string"
  string_to_number :: "string \<Rightarrow> jsnum"

subsection \<open>Strings\<close>

text \<open>The decimal digits of an integer that is not negative.\<close>

function dec_digits :: "int \<Rightarrow> string" where
  "dec_digits n =
     (if n < 10 then [''0123456789'' ! nat n]
      else dec_digits (n div 10) @ [''0123456789'' ! nat (n mod 10)])"
  by pat_completeness auto
termination
  by (relation "measure nat") auto

declare dec_digits.simps [simp del]

fun join :: "string \<Rightarrow> string list \<Rightarrow> string" where
  "join sep [] = []"
| "join sep [x] = x"
| "join sep (x # y # ys) = x @ sep @ join sep (y # ys)"

text \<open>\<open>s.split(c)\<close> for a one-character separator: never empty, \<open>''''\<close> gives \<open>['''']\<close>.\<close>

fun split_on :: "char \<Rightarrow> string \<Rightarrow> string list" where
  "split_on c [] = [[]]"
| "split_on c (x # xs) =
     (if x = c then [] # split_on c xs
      else (case split_on c xs of
              [] \<Rightarrow> [[x]]
            | y # ys \<Rightarrow> (x # y) # ys))"

text \<open>\<open>s.startsWith(p)\<close>.\<close>

definition startsWith :: "string \<Rightarrow> string \<Rightarrow> bool" where
  "startsWith s p = prefix p s"

subsection \<open>Numbers\<close>

text \<open>
  Rounding to the nearest double, ties to even. The magnitude is scaled by powers of two
  into \<open>[2^52, 2^53)\<close>, or as far as the least exponent \<open>-1074\<close> allows, and rounded to
  an integer there; a result of \<open>2^1024\<close> or more is an infinity.
\<close>

definition round_half_even :: "rat \<Rightarrow> int" where
  "round_half_even a =
     (let f = \<lfloor>a\<rfloor>; d = a - of_int f
      in if d < 1 / 2 then f else if 1 / 2 < d then f + 1 else if even f then f else f + 1)"

function norm_down :: "rat \<Rightarrow> int \<Rightarrow> rat \<times> int" where
  "norm_down a e = (if 2 ^ 53 \<le> a \<and> e < 972 then norm_down (a / 2) (e + 1) else (a, e))"
  by pat_completeness auto
termination
  by (relation "measure (\<lambda>(a, e). nat (972 - e))") auto

function norm_up :: "rat \<Rightarrow> int \<Rightarrow> rat \<times> int" where
  "norm_up a e = (if a < 2 ^ 52 \<and> - 1074 < e then norm_up (a * 2) (e - 1) else (a, e))"
  by pat_completeness auto
termination
  by (relation "measure (\<lambda>(a, e). nat (e + 1074))") auto

declare norm_down.simps [simp del]

declare norm_up.simps [simp del]

definition round_double :: "rat \<Rightarrow> jsnum" where
  "round_double q =
     (if q = 0 then Fin 0
      else
        let (a1, e1) = norm_down \<bar>q\<bar> 0;
            (a2, e2) = norm_up a1 e1;
            r = of_int (round_half_even a2) * (\<bar>q\<bar> / a2)
        in if 2 ^ 1024 \<le> r then (if 0 < q then PosInf else NegInf)
           else Fin (if 0 < q then r else - r))"

text \<open>
  \<open>String(x)\<close> for a number: an integer below \<open>2^53\<close> in magnitude prints as its decimal
  digits; the text of every other finite number is the runtime's.
\<close>

definition number_str :: "runtime \<Rightarrow> jsnum \<Rightarrow> string" where
  "number_str rt n =
     (case n of
        NaN \<Rightarrow> ''NaN''
      | PosInf \<Rightarrow> ''Infinity''
      | NegInf \<Rightarrow> ''-Infinity''
      | Fin q \<Rightarrow>
          if q = of_int \<lfloor>q\<rfloor> \<and> \<bar>q\<bar> < 2 ^ 53
          then (if q < 0 then ''-'' else []) @ dec_digits \<bar>\<lfloor>q\<rfloor>\<bar>
          else number_to_string rt q)"

text \<open>
  The operators \<open>*\<close> and \<open>/\<close> on numbers: the exact product or quotient of two finite
  numbers, rounded to a double.
\<close>

fun jmul :: "jsnum \<Rightarrow> jsnum \<Rightarrow> jsnum" where
  "jmul NaN _ = NaN"
| "jmul _ NaN = NaN"
| "jmul (Fin a) (Fin b) = round_double (a * b)"
| "jmul (Fin a) PosInf = (if a = 0 then NaN else if 0 < a then PosInf else NegInf)"
| "jmul (Fin a) NegInf = (if a = 0 then NaN else if 0 < a then NegInf else PosInf)"
| "jmul PosInf (Fin b) = (if b = 0 then NaN else if 0 < b then PosInf else NegInf)"
| "jmul NegInf (Fin b) = (if b = 0 then NaN else if 0 < b then NegInf else PosInf)"
| "jmul PosInf PosInf = PosInf"
| "jmul PosInf NegInf = NegInf"
| "jmul NegInf PosInf = NegInf"
| "jmul NegInf NegInf = PosInf"

fun jdiv :: "jsnum \<Rightarrow> jsnum \<Rightarrow> jsnum" where
  "jdiv NaN _ = NaN"
| "jdiv _ NaN = NaN"
| "jdiv (Fin a) (Fin b) =
     (if b = 0 then (if a = 0 then NaN else if 0 < a then PosInf else NegInf)
      else round_double (a / b))"
| "jdiv (Fin a) PosInf = Fin 0"
| "jdiv (Fin a) NegInf = Fin 0"
| "jdiv PosInf (Fin b) = (if b < 0 then NegInf else PosInf)"
| "jdiv NegInf (Fin b) = (if b < 0 then PosInf else NegInf)"
| "jdiv PosInf PosInf = NaN"
| "jdiv PosInf NegInf = NaN"
| "jdiv NegInf PosInf = NaN"
| "jdiv NegInf NegInf = NaN"

text \<open>\<open>Math.max(a, b)\<close> and \<open>Math.floor(x)\<close> on numbers.\<close>

fun Math_max :: "jsnum \<Rightarrow> jsnum \<Rightarrow> jsnum" where
  "Math_max NaN _ = NaN"
| "Math_max _ NaN = NaN"
| "Math_max PosInf _ = PosInf"
| "Math_max _ PosInf = PosInf"
| "Math_max NegInf b = b"
| "Math_max a NegInf = a"
| "Math_max (Fin a) (Fin b) = Fin (max a b)"

fun Math_floor :: "jsnum \<Rightarrow> jsnum" where
  "Math_floor (Fin q) = Fin (of_int \<lfloor>q\<rfloor>)"
| "Math_floor n = n"

text \<open>
  \<open>x.toFixed(f)\<close>: the multiple of \<open>10^-f\<close> nearest to the exact value of the double \<open>x\<close>
  (the larger one on a tie), printed with at least one digit before the point; a value
  that is not finite, or is at least \<open>10^21\<close> in magnitude, is printed as \<open>String(x)\<close>.
\<close>

definition toFixed :: "runtime \<Rightarrow> jsnum \<Rightarrow> nat \<Rightarrow> string" where
  "toFixed rt x f =
     (case x of
        Fin q \<Rightarrow>
          if 10 ^ 21 \<le> \<bar>q\<bar> then number_str rt x
          else
            (let n = \<lfloor>\<bar>q\<bar> * 10 ^ f + 1 / 2\<rfloor>;
                 m = dec_digits n;
                 m' = (if f \<noteq> 0 \<and> length m \<le> f
                       then replicate (f + 1 - length m) CHR ''0'' @ m else m);
                 k = length m'
             in (if q < 0 then ''-'' else []) @
                (if f \<noteq> 0 then take (k - f) m' @ ''.'' @ drop (k - f) m' else m'))
      | _ \<Rightarrow> number_str rt x)"

text \<open>
  \<open>parseInt(s, 10)\<close>: leading white space is skipped, then an optional sign, then the
  longest run of decimal digits is read and rounded to a double; no digit gives \<open>NaN\<close>.
  The white space below code unit 256 is the tab, the line feed, the vertical tab, the form
  feed, the carriage return, the space and the no-break space.
\<close>

definition is_space :: "char \<Rightarrow> bool" where
  "is_space c =
     (c \<in> set [CHR '' '', CHR 0x09, CHR 0x0A, CHR 0x0B, CHR 0x0C, CHR 0x0D, CHR 0xA0])"

definition is_digit :: "char \<Rightarrow> bool" where
  "is_digit c = (c \<in> set ''0123456789'')"

definition digits_value :: "string \<Rightarrow> int" where
  "digits_value ds = foldl (\<lambda>acc c. 10 * acc + (of_char c - 48)) 0 ds"

definition parseInt10 :: "string \<Rightarrow> jsnum" where
  "parseInt10 s =
     (let t = dropWhile is_space s;
          neg = (t \<noteq> [] \<and> hd t = CHR ''-'');
          u = (if t \<noteq> [] \<and> (hd t = CHR ''-'' \<or> hd t = CHR ''+'') then tl t else t);
          z = takeWhile is_digit u
      in if z = [] then NaN
         else round_double (of_int ((if neg then - 1 else 1) * digits_value z)))"

subsection \<open>Coercions and tests\<close>

definition is_nullish :: "jsval \<Rightarrow> bool" where
  "is_nullish v = (v = Undefined \<or> v = Null)"

text \<open>
  \<open>String(v)\<close> and \<open>Number(v)\<close>, as a template literal, the arithmetic operators and
  \<open>Math.max\<close> apply them, raise a \<open>TypeError\<close> on an object that has no callable
  \<open>toString\<close>. For a value parsed from JSON that is an object with a property of its own
  named \<open>toString\<close> (no JSON value is callable, and the inherited \<open>valueOf\<close> returns the
  object itself), or an array that holds such an object: \<open>unconvertible\<close>. On every other
  value the conversions return what \<open>to_string\<close> and \<open>to_number\<close> give.
\<close>

datatype error = TypeError

fun unconvertible :: "jsval \<Rightarrow> bool" where
  "unconvertible (Obj ps) = (''toString'' \<in> set (map fst ps))"
| "unconvertible (Arr xs) = (\<exists>x \<in> set xs. unconvertible x)"
| "unconvertible v = False"


fun to_string :: "runtime \<Rightarrow> jsval \<Rightarrow> string" where
  "to_string rt Undefined = ''undefined''"
| "to_string rt Null = ''null''"
| "to_string rt (Bool b) = (if b then ''true'' else ''false'')"
| "to_string rt (Num n) = number_str rt n"
| "to_string rt (Str s) = s"
| "to_string rt (Arr xs) =
     join '','' (map (\<lambda>x. if is_nullish x then [] else to_string rt x) xs)"
| "to_string rt (Obj ps) = ''[object Object]''"


fun to_number :: "runtime \<Rightarrow> jsval \<Rightarrow> jsnum" where
  "to_number rt Undefined = NaN"
| "to_number rt Null = Fin 0"
| "to_number rt (Bool b) = Fin (if b then 1 else 0)"
| "to_number rt (Num n) = n"
| "to_number rt (Str s) = string_to_number rt s"
| "to_number rt (Arr xs) = string_to_number rt (to_string rt (Arr xs))"
| "to_number rt (Obj ps) = NaN"

definition ToString :: "runtime \<Rightarrow> jsval \<Rightarrow> error + string" where
  "ToString rt v = (if unconvertible v then Inl TypeError else Inr (to_string rt v))"

definition ToNumber :: "runtime \<Rightarrow> jsval \<Rightarrow> error + jsnum" where
  "ToNumber rt v = (if unconvertible v then Inl TypeError else Inr (to_number rt v))"

text \<open>An exception ends the evaluation: what follows runs on a result only.\<close>

definition and_then :: "error + 'a \<Rightarrow> ('a \<Rightarrow> error + 'b) \<Rightarrow> error + 'b" where
  "and_then r f = (case r of Inl e \<Rightarrow> Inl e | Inr v \<Rightarrow> f v)"

text \<open>The truth value of \<open>v\<close> in a condition.\<close>

fun truthy :: "jsval \<Rightarrow> bool" where
  "truthy Undefined = False"
| "truthy Null = False"
| "truthy (Bool b) = b"
| "truthy (Num n) = (n \<noteq> NaN \<and> n \<noteq> Fin 0)"
| "truthy (Str s) = (s \<noteq> [])"
| "truthy (Arr xs) = True"
| "truthy (Obj ps) = True"

text \<open>
  \<open>a === b\<close>. Arrays and objects are compared by identity; two values read from different
  places are never the same array or object.
\<close>

fun strict_eq :: "jsval \<Rightarrow> jsval \<Rightarrow> bool" where
  "strict_eq Undefined Undefined = True"
| "strict_eq Null Null = True"
| "strict_eq (Bool a) (Bool b) = (a = b)"
| "strict_eq (Num a) (Num b) = (a \<noteq> NaN \<and> a = b)"
| "strict_eq (Str a) (Str b) = (a = b)"
| "strict_eq _ _ = False"

fun typeof :: "jsval \<Rightarrow> string" where
  "typeof Undefined = ''undefined''"
| "typeof Null = ''object''"
| "typeof (Bool b) = ''boolean''"
| "typeof (Num n) = ''number''"
| "typeof (Str s) = ''string''"
| "typeof (Arr xs) = ''object''"
| "typeof (Obj ps) = ''object''"

fun isArray :: "jsval \<Rightarrow> bool" where
  "isArray (Arr xs) = True"
| "isArray _ = False"

text \<open>\<open>xs.slice(-1)\<close>: the array of the last element, empty for the empty array.\<close>

definition slice_last :: "jsval list \<Rightarrow> jsval list" where
  "slice_last xs = drop (length xs - 1) xs"

section \<open>Rendered elements\<close>

text \<open>
  The elements the renderers build, one constructor for each component with its
  properties in the order of the source. The results of the imported helpers
  (\<open>t\<close>, \<open>tct\<close>, \<open>formatFloat\<close>, \<open>formatPercentage\<close>, \<open>getDynamicText\<close>) are kept as
  terms over their arguments. \<open>Child v\<close> is a raw value placed between tags.
\<close>

datatype theme_color = purpleDarkest

datatype node =
    NullNode
  | Child jsval
  | T string
  | Tct string "(string \<times> jsval) list"
  | FormatFloat jsnum nat
  | FormatPercentage jsnum
  | GetDynamicText node string
  | Span "node list"
  | Container "node list"
  | NumberContainer "node list"
  | EmptyValueContainer "node list"
  | BarContainer "node list"
  | VersionContainer "node list"
  | EventId string
  | OverflowLink string jsval "node list"
  | StyledShortId string
  | StyledDateTime jsval
  | Duration jsnum nat bool
  | Count jsnum
  | Projects string "jsval list" "obj list \<Rightarrow> node"
  | ProjectBadge obj nat
  | UserBadge obj bool nat
  | Version jsval bool bool bool
  | Tooltip node bool string "node list"
  | ScoreBar nat jsnum "theme_color list" nat

definition emptyValue :: node where
  "emptyValue = Span [T ''n/a'']"

section \<open>Rows, context and failures\<close>

type_synonym EventData = obj

type_synonym MetaType = "string \<rightharpoonup> string"

record Organization =
  slug :: string

record RenderFunctionBaggage =
  organization :: Organization
  location :: obj

text \<open>
  An own property of an object, \<open>undefined\<close> when there is none. The names that every
  object inherits (\<open>constructor\<close>, \<open>toString\<close> and the like) are not field names of a row
  here; none of the names that the special renderers read is one of them.
\<close>

definition own :: "obj \<Rightarrow> string \<Rightarrow> jsval" where
  "own ps k = (case map_of ps k of None \<Rightarrow> Undefined | Some v \<Rightarrow> v)"

text \<open>
  The row argument of a renderer is \<open>Some row\<close>, or \<open>None\<close> when the caller passes
  \<open>undefined\<close> or \<open>null\<close> in its place. \<open>data[k]\<close> on such an argument is a
  \<open>TypeError\<close>; \<open>data?.k\<close> is \<open>undefined\<close>.
\<close>

definition read_prop :: "EventData option \<Rightarrow> string \<Rightarrow> error + jsval" where
  "read_prop data k = (case data of None \<Rightarrow> Inl TypeError | Some row \<Rightarrow> Inr (own row k))"

definition read_prop_opt :: "EventData option \<Rightarrow> string \<Rightarrow> jsval" where
  "read_prop_opt data k = (case data of None \<Rightarrow> Undefined | Some row \<Rightarrow> own row k)"

definition reading :: "EventData option \<Rightarrow> string \<Rightarrow> (jsval \<Rightarrow> error + 'a) \<Rightarrow> error + 'a" where
  "reading data k f = (case read_prop data k of Inl e \<Rightarrow> Inl e | Inr v \<Rightarrow> f v)"

type_synonym FieldFormatterRenderFunction =
  "string \<Rightarrow> EventData option \<Rightarrow> RenderFunctionBaggage \<Rightarrow> error + node"

type_synonym SpecialFieldRenderFunc =
  "EventData option \<Rightarrow> RenderFunctionBaggage \<Rightarrow> error + node"

record FieldFormatter =
  isSortable :: bool
  renderFunc :: FieldFormatterRenderFunction

record SpecialField =
  sortField :: "string option"
  specialRenderFunc :: SpecialFieldRenderFunc

section \<open>FIELD_FORMATTERS\<close>

definition boolean_renderFunc :: FieldFormatterRenderFunction where
  "boolean_renderFunc field data baggage =
     reading data field (\<lambda>v.
       Inr (Container [if truthy v then T ''yes'' else T ''no'']))"

definition date_renderFunc :: FieldFormatterRenderFunction where
  "date_renderFunc field data baggage =
     reading data field (\<lambda>v.
       Inr (Container
         [if truthy v then GetDynamicText (StyledDateTime v) ''timestamp'' else emptyValue]))"

text \<open>
  In the four numeric formatters the branch \<open>Num n\<close> is the test
  \<open>typeof data[field] === 'number'\<close>, and \<open>n\<close> the number then read again.
\<close>

definition duration_renderFunc :: FieldFormatterRenderFunction where
  "duration_renderFunc field data baggage =
     reading data field (\<lambda>v.
       Inr (NumberContainer
         [case v of Num n \<Rightarrow> Duration (jdiv n (Fin 1000)) 2 True | _ \<Rightarrow> emptyValue]))"

definition integer_renderFunc :: FieldFormatterRenderFunction where
  "integer_renderFunc field data baggage =
     reading data field (\<lambda>v.
       Inr (NumberContainer [case v of Num n \<Rightarrow> Count n | _ \<Rightarrow> emptyValue]))"

definition number_renderFunc :: FieldFormatterRenderFunction where
  "number_renderFunc field data baggage =
     reading data field (\<lambda>v.
       Inr (NumberContainer [case v of Num n \<Rightarrow> FormatFloat n 4 | _ \<Rightarrow> emptyValue]))"

definition percentage_renderFunc :: FieldFormatterRenderFunction where
  "percentage_renderFunc field data baggage =
     reading data field (\<lambda>v.
       Inr (NumberContainer [case v of Num n \<Rightarrow> FormatPercentage n | _ \<Rightarrow> emptyValue]))"

text \<open>
  In the string formatter the branch \<open>Arr xs\<close> is the test \<open>Array.isArray(data[field])\<close>.
\<close>

definition string_renderFunc :: FieldFormatterRenderFunction where
  "string_renderFunc field data baggage =
     reading data field (\<lambda>v.
       let val = (case v of Arr xs \<Rightarrow> Arr (slice_last xs) | _ \<Rightarrow> v)
       in Inr (Container [Child val]))"

definition string_formatter :: FieldFormatter where
  "string_formatter = \<lparr>isSortable = True, renderFunc = string_renderFunc\<rparr>"

definition FIELD_FORMATTERS :: "(string \<times> FieldFormatter) list" where
  "FIELD_FORMATTERS =
     [(''boolean'', \<lparr>isSortable = True, renderFunc = boolean_renderFunc\<rparr>),
      (''date'', \<lparr>isSortable = True, renderFunc = date_renderFunc\<rparr>),
      (''duration'', \<lparr>isSortable = True, renderFunc = duration_renderFunc\<rparr>),
      (''integer'', \<lparr>isSortable = True, renderFunc = integer_renderFunc\<rparr>),
      (''number'', \<lparr>isSortable = True, renderFunc = number_renderFunc\<rparr>),
      (''percentage'', \<lparr>isSortable = True, renderFunc = percentage_renderFunc\<rparr>),
      (''string'', string_formatter)]"

section \<open>SPECIAL_FIELDS\<close>

text \<open>
  In the \<open>id\<close> renderer the branch \<open>Str s\<close> is the test \<open>typeof id === 'string'\<close>; the row
  is read with \<open>data?.id\<close>.
\<close>

definition id_renderFunc :: SpecialFieldRenderFunc where
  "id_renderFunc data baggage =
     (case read_prop_opt data ''id'' of
        Str s \<Rightarrow> Inr (Container [EventId s])
      | _ \<Rightarrow> Inr NullNode)"

definition issue_id_renderFunc :: "runtime \<Rightarrow> SpecialFieldRenderFunc" where
  "issue_id_renderFunc rt data baggage =
     reading data ''issue.id'' (\<lambda>issueID.
       and_then (ToString rt issueID) (\<lambda>issueText.
         let target = ''/organizations/'' @ slug (organization baggage) @ ''/issues/'' @
                      issueText @ ''/''
         in Inr (Container [OverflowLink target issueID [Child issueID]])))"

definition issue_renderFunc :: "runtime \<Rightarrow> SpecialFieldRenderFunc" where
  "issue_renderFunc rt data baggage =
     reading data ''issue.id'' (\<lambda>issueID.
       if \<not> truthy issueID then
         reading data ''issue'' (\<lambda>issue.
           and_then (ToString rt issue) (\<lambda>shortId.
             Inr (Container [StyledShortId shortId])))
       else
         and_then (ToString rt issueID) (\<lambda>issueText.
           let target = ''/organizations/'' @ slug (organization baggage) @ ''/issues/'' @
                        issueText @ ''/''
           in reading data ''issue'' (\<lambda>issue.
                and_then (ToString rt issue) (\<lambda>shortId.
                  Inr (Container [OverflowLink target issueID [StyledShortId shortId]])))))"

text \<open>
  The child of \<open>Projects\<close> is a function of the projects that the component loads; it is
  kept as a function in the element.
\<close>

definition project_renderFunc :: SpecialFieldRenderFunc where
  "project_renderFunc data baggage =
     reading data ''project'' (\<lambda>dataProject.
       Inr (Container
         [Projects (slug (organization baggage)) [dataProject]
            (\<lambda>projects.
               let project = find (\<lambda>p. strict_eq (own p ''slug'') dataProject) projects
               in ProjectBadge
                    (case project of
                       Some p \<Rightarrow> p
                     | None \<Rightarrow> [(''slug'', dataProject)])
                    16)]))"

definition user_renderFunc :: SpecialFieldRenderFunc where
  "user_renderFunc data baggage =
     reading data ''user'' (\<lambda>user.
       let userObj = [(''id'', user), (''name'', user), (''email'', user),
                      (''username'', user), (''ip_address'', Str [])]
       in if truthy user then Inr (Container [UserBadge userObj True 16])
          else Inr (EmptyValueContainer [emptyValue]))"

text \<open>\<open>data.release && element\<close> is the value of \<open>data.release\<close> itself when that is falsy.\<close>

definition release_renderFunc :: SpecialFieldRenderFunc where
  "release_renderFunc data baggage =
     reading data ''release'' (\<lambda>release.
       if truthy release then Inr (VersionContainer [Version release False True True])
       else Inr (Child release))"

definition SPECIAL_FIELDS :: "runtime \<Rightarrow> (string \<times> SpecialField) list" where
  "SPECIAL_FIELDS rt =
     [(''id'', \<lparr>sortField = Some ''id'', specialRenderFunc = id_renderFunc\<rparr>),
      (''issue.id'',
         \<lparr>sortField = Some ''issue.id'', specialRenderFunc = issue_id_renderFunc rt\<rparr>),
      (''issue'', \<lparr>sortField = None, specialRenderFunc = issue_renderFunc rt\<rparr>),
      (''project'', \<lparr>sortField = Some ''project'', specialRenderFunc = project_renderFunc\<rparr>),
      (''user'', \<lparr>sortField = Some ''user.id'', specialRenderFunc = user_renderFunc\<rparr>),
      (''release'', \<lparr>sortField = Some ''release'', specialRenderFunc = release_renderFunc\<rparr>)]"

section \<open>SPECIAL_FUNCTIONS\<close>

text \<open>
  The loop \<open>for (const field in data)\<close> of \<open>user_misery\<close>: it starts from the empty name
  and assigns at every field whose name starts with \<open>user_misery\<close>.
\<close>

definition userMiseryField_of :: "EventData \<Rightarrow> string" where
  "userMiseryField_of row =
     foldl (\<lambda>userMiseryField field.
              if startsWith field ''user_misery'' then field else userMiseryField)
       [] (map fst row)"

text \<open>
  The score, on the numbers that \<open>userMisery\<close> and \<open>uniqueUsers\<close> convert to:
  \<open>Math.floor((userMisery / Math.max(uniqueUsers, 1)) * palette.length)\<close>.
\<close>

definition misery_score :: "jsnum \<Rightarrow> jsnum \<Rightarrow> nat \<Rightarrow> jsnum" where
  "misery_score misery users paletteLength =
     Math_floor (jmul (jdiv misery (Math_max users (Fin 1))) (Fin (of_nat paletteLength)))"

definition misery_limit :: "string \<Rightarrow> jsnum" where
  "misery_limit userMiseryField =
     (let popped = last (split_on CHR ''_'' userMiseryField)
      in parseInt10 (if popped \<noteq> [] then popped else []))"

definition misery_title :: "string" where
  "misery_title =
     ''[affectedUsers] out of [totalUsers] ([miseryPercentage]%) unique users waited more than [duration]ms''"

text \<open>
  What \<open>user_misery\<close> does once the misery field is found and read: the formatted
  number when there is no count of unique users, the score bar otherwise. On the way to
  the bar \<open>Math.max\<close> converts the count to a number and the division converts the misery
  value.
\<close>

definition misery_cell :: "runtime \<Rightarrow> jsval \<Rightarrow> string \<Rightarrow> jsval \<Rightarrow> error + node" where
  "misery_cell rt uniqueUsers userMiseryField userMisery =
     (if \<not> truthy uniqueUsers \<and> \<not> strict_eq uniqueUsers (Num (Fin 0)) then
        Inr (NumberContainer
          [case userMisery of Num n \<Rightarrow> FormatFloat n 4 | _ \<Rightarrow> emptyValue])
      else
        and_then (ToNumber rt uniqueUsers) (\<lambda>users.
          and_then (ToNumber rt userMisery) (\<lambda>misery.
            let palette = replicate 10 purpleDarkest;
                score = misery_score misery users (length palette);
                miseryLimit = misery_limit userMiseryField;
                miseryPercentage =
                  toFixed rt (jdiv (jmul (Fin 100) misery) (Math_max users (Fin 1))) 2;
                title =
                  Tct misery_title
                    [(''affectedUsers'', userMisery),
                     (''totalUsers'', uniqueUsers),
                     (''miseryPercentage'', Str miseryPercentage),
                     (''duration'', Num (jmul (Fin 4) miseryLimit))]
            in Inr (BarContainer
                 [Tooltip title False ''block'' [ScoreBar 20 score palette 0]]))))"

definition user_misery :: "runtime \<Rightarrow> SpecialFieldRenderFunc" where
  "user_misery rt data baggage =
     reading data ''count_unique_user'' (\<lambda>uniqueUsers.
       let userMiseryField = (case data of None \<Rightarrow> [] | Some row \<Rightarrow> userMiseryField_of row)
       in if userMiseryField = [] then Inr (NumberContainer [emptyValue])
          else
            reading data userMiseryField (\<lambda>userMisery.
              misery_cell rt uniqueUsers userMiseryField userMisery))"

definition SPECIAL_FUNCTIONS :: "runtime \<Rightarrow> (string \<times> SpecialFieldRenderFunc) list" where
  "SPECIAL_FUNCTIONS rt = [(''user_misery'', user_misery rt)]"

section \<open>The resolvers\<close>

text \<open>
  \<open>AGGREGATIONS\<close> and \<open>getAggregateAlias\<close> are imported from the module of the fields;
  they are parameters here. Of an aggregation only \<open>isSortable\<close> is read. A type
  metadata map gives the declared type of a field name, if any; \<open>None\<close> as the
  metadata argument of \<open>getSortField\<close> is \<open>undefined\<close>.
\<close>

record Aggregation =
  aggIsSortable :: bool

definition getSortField ::
  "(string \<times> Aggregation) list \<Rightarrow> runtime \<Rightarrow> string \<Rightarrow> MetaType option \<Rightarrow> string option"
where
  "getSortField AGGREGATIONS rt field tableMeta =
     (case map_of (SPECIAL_FIELDS rt) field of
        Some special \<Rightarrow> sortField special
      | None \<Rightarrow>
         (case tableMeta of
            None \<Rightarrow> Some field
          | Some meta \<Rightarrow>
             (case find (\<lambda>(alias, agg). startsWith field alias) AGGREGATIONS of
                Some (alias, agg) \<Rightarrow> if aggIsSortable agg then Some field else None
              | None \<Rightarrow>
                 (case meta field of
                    None \<Rightarrow> None
                  | Some fieldType \<Rightarrow>
                     (case map_of FIELD_FORMATTERS fieldType of
                        Some formatter \<Rightarrow> if isSortable formatter then Some field else None
                      | None \<Rightarrow> None)))))"

definition getFieldRenderer ::
  "(string \<Rightarrow> string) \<Rightarrow> runtime \<Rightarrow> string \<Rightarrow> MetaType \<Rightarrow> SpecialFieldRenderFunc"
where
  "getFieldRenderer getAggregateAlias rt field meta =
     (case map_of (SPECIAL_FIELDS rt) field of
        Some special \<Rightarrow> specialRenderFunc special
      | None \<Rightarrow>
         (let fieldName = getAggregateAlias field;
              fieldType = meta fieldName
          in case find (\<lambda>(alias, f). startsWith fieldName alias) (SPECIAL_FUNCTIONS rt) of
               Some (alias, f) \<Rightarrow> f
             | None \<Rightarrow>
                (case fieldType of
                   None \<Rightarrow> renderFunc string_formatter fieldName
                 | Some ty \<Rightarrow>
                    (case map_of FIELD_FORMATTERS ty of
                       Some formatter \<Rightarrow> renderFunc formatter fieldName
                     | None \<Rightarrow> renderFunc string_formatter fieldName))))"

section \<open>The thread selector\<close>

text \<open>
  \<open>filterThreadInfo\<close> and \<open>getThreadException\<close> are imported; they are parameters, and so
  are the types of the event and of the exception data. Of a thread the selector reads
  \<open>id\<close>, \<open>name\<close> and \<open>crashed\<close>. By their types the id is a number, the name, the label
  and the file name are strings (or absent), and the flag is a boolean; on such values the
  conversion to a string does not fail, and \<open>to_string\<close> gives its result.
\<close>

record Thread =
  thread_id :: jsval
  thread_name :: jsval
  crashed :: jsval

record ThreadInfo =
  label :: jsval
  filename :: jsval

record 'x OptionProps =
  option_id :: jsval
  option_details :: ThreadInfo
  option_name :: jsval
  option_crashed :: jsval
  option_crashedInfo :: "'x option"

record 'x DropDownItem =
  item_value :: string
  item_threadInfo :: ThreadInfo
  item_thread :: Thread
  item_label :: "'x OptionProps"

definition getDropDownItem ::
  "(Thread \<Rightarrow> 'e \<Rightarrow> ThreadInfo) \<Rightarrow> (Thread \<Rightarrow> 'e \<Rightarrow> 'x) \<Rightarrow> runtime \<Rightarrow> 'e \<Rightarrow> Thread
    \<Rightarrow> 'x DropDownItem"
where
  "getDropDownItem filterThreadInfo getThreadException rt event thread =
     (let threadInfo = filterThreadInfo thread event;
          dropDownValue =
            ''#'' @ to_string rt (thread_id thread) @ '': '' @ to_string rt (thread_name thread) @
            '' '' @ to_string rt (label threadInfo) @ '' '' @ to_string rt (filename threadInfo);
          crashedInfo =
            (if truthy (crashed thread) then Some (getThreadException thread event) else None)
      in \<lparr>item_value = dropDownValue,
          item_threadInfo = threadInfo,
          item_thread = thread,
          item_label =
            \<lparr>option_id = thread_id thread,
             option_details = threadInfo,
             option_name = thread_name thread,
             option_crashed = crashed thread,
             option_crashedInfo = crashedInfo\<rparr>\<rparr>)"

text \<open>The \<open>items\<close> of the dropdown: \<open>threads.map(getDropDownItem)\<close>.\<close>

definition ThreadSelector_items ::
  "(Thread \<Rightarrow> 'e \<Rightarrow> ThreadInfo) \<Rightarrow> (Thread \<Rightarrow> 'e \<Rightarrow> 'x) \<Rightarrow> runtime \<Rightarrow> Thread list \<Rightarrow> 'e
    \<Rightarrow> 'x DropDownItem list"
where
  "ThreadSelector_items filterThreadInfo getThreadException rt threads event =
     map (getDropDownItem filterThreadInfo getThreadException rt event) threads"

text \<open>\<open>handleOnChange\<close>: the owner's callback, when there is one, is applied to the thread.\<close>

definition handleOnChange :: "(Thread \<Rightarrow> 'r) option \<Rightarrow> 'x DropDownItem \<Rightarrow> 'r option" where
  "handleOnChange onChange item =
     (case onChange of None \<Rightarrow> None | Some f \<Rightarrow> Some (f (item_thread item)))"

section \<open>Children and examples\<close>

text \<open>
  React reads an array among the children of an element as the sequence of its elements,
  at any depth of nesting.
\<close>

fun flatten_child :: "jsval \<Rightarrow> jsval list" where
  "flatten_child (Arr xs) = concat (map flatten_child xs)"
| "flatten_child v = [v]"

text \<open>
  The examples use integers only, and no string where a number is expected: neither
  conversion of the runtime is applied in them, and \<open>example_runtime\<close> fixes both
  arbitrarily.
\<close>

definition example_runtime :: runtime where
  "example_runtime = \<lparr>number_to_string = (\<lambda>q. []), string_to_number = (\<lambda>s. NaN)\<rparr>"

definition example_baggage :: RenderFunctionBaggage where
  "example_baggage = \<lparr>organization = \<lparr>slug = ''acme''\<rparr>, location = []\<rparr>"

text \<open>
  For comparison with the loop: the first field of a row whose name starts with
  \<open>user_misery\<close>, if there is one, and all such fields in the order of the row.
\<close>

definition first_misery_field :: "EventData \<Rightarrow> string option" where
  "first_misery_field row = find (\<lambda>field. startsWith field ''user_misery'') (map fst row)"

definition misery_fields :: "EventData \<Rightarrow> string list" where
  "misery_fields row = filter (\<lambda>field. startsWith field ''user_misery'') (map fst row)"

section \<open>Basic facts\<close>

lemma reading_Some [simp]: "reading (Some row) k f = f (own row k)"
  by (simp add: reading_def read_prop_def)

lemma reading_None [simp]: "reading None k f = Inl TypeError"
  by (simp add: reading_def read_prop_def)

lemma typeof_number: "typeof v = ''number'' \<longleftrightarrow> (\<exists>n. v = Num n)"
  by (cases v) simp_all

lemma typeof_string: "typeof v = ''string'' \<longleftrightarrow> (\<exists>s. v = Str s)"
  by (cases v) simp_all

lemma isArray_iff: "isArray v \<longleftrightarrow> (\<exists>xs. v = Arr xs)"
  by (cases v) simp_all

lemma slice_last_nonempty: "xs \<noteq> [] \<Longrightarrow> slice_last xs = [last xs]"
  by (induction xs rule: rev_induct) (simp_all add: slice_last_def)

lemma slice_last_empty: "slice_last [] = []"
  by (simp add: slice_last_def)

lemma special_fields_keys:
  "map_of (SPECIAL_FIELDS rt) field = None \<longleftrightarrow>
     field \<notin> {''id'', ''issue.id'', ''issue'', ''project'', ''user'', ''release''}"
  by (simp add: SPECIAL_FIELDS_def)

lemma field_formatters_keys:
  "dom (map_of FIELD_FORMATTERS) =
     {''boolean'', ''date'', ''duration'', ''integer'', ''number'', ''percentage'', ''string''}"
  by (auto simp: FIELD_FORMATTERS_def split: if_splits)

lemma field_formatters_sortable:
  "map_of FIELD_FORMATTERS ty = Some formatter \<Longrightarrow> isSortable formatter"
  by (auto simp: FIELD_FORMATTERS_def string_formatter_def split: if_splits)

lemma and_then_Inr [simp]: "and_then (Inr v) f = f v"
  by (simp add: and_then_def)

lemma and_then_Inl [simp]: "and_then (Inl e) f = Inl e"
  by (simp add: and_then_def)

lemma error_is_TypeError: "(e :: error) = TypeError"
  by (cases e) simp

lemma ToString_convertible [simp]: "\<not> unconvertible v \<Longrightarrow> ToString rt v = Inr (to_string rt v)"
  by (simp add: ToString_def)

lemma ToString_unconvertible [simp]: "unconvertible v \<Longrightarrow> ToString rt v = Inl TypeError"
  by (simp add: ToString_def)

lemma ToNumber_convertible [simp]: "\<not> unconvertible v \<Longrightarrow> ToNumber rt v = Inr (to_number rt v)"
  by (simp add: ToNumber_def)

lemma ToNumber_unconvertible [simp]: "unconvertible v \<Longrightarrow> ToNumber rt v = Inl TypeError"
  by (simp add: ToNumber_def)

text \<open>Only objects and arrays can fail to convert, and they are truthy.\<close>

lemma unconvertible_truthy: "unconvertible v \<Longrightarrow> truthy v"
  by (cases v) simp_all

section \<open>Rounding to a double\<close>

lemma round_half_even_int: "round_half_even (of_int n) = n"
  by (simp add: round_half_even_def)

lemma round_half_even_below:
  "of_int f \<le> a \<Longrightarrow> a - of_int f < 1 / 2 \<Longrightarrow> round_half_even a = f"
proof -
  assume "of_int f \<le> a" and d: "a - of_int f < 1 / 2"
  then have "\<lfloor>a\<rfloor> = f" by (simp add: floor_eq_iff)
  with d show ?thesis by (simp add: round_half_even_def)
qed

lemma round_half_even_above:
  "a < of_int f \<Longrightarrow> of_int f - a < 1 / 2 \<Longrightarrow> round_half_even a = f"
proof -
  assume "a < of_int f" and d: "of_int f - a < 1 / 2"
  then have fl: "\<lfloor>a\<rfloor> = f - 1" by (simp add: floor_eq_iff)
  from d have "1 / 2 < a - of_int (f - 1)" by simp
  with fl show ?thesis by (simp add: round_half_even_def)
qed

lemma round_half_even_tie:
  "a = of_int f + 1 / 2 \<Longrightarrow> round_half_even a = (if even f then f else f + 1)"
proof -
  assume a: "a = of_int f + 1 / 2"
  then have "\<lfloor>a\<rfloor> = f" by (simp add: floor_eq_iff)
  with a show ?thesis by (simp add: round_half_even_def)
qed

lemma round_half_even_le: "round_half_even a \<le> \<lfloor>a\<rfloor> + 1"
  by (simp add: round_half_even_def Let_def)

lemma norm_down_id: "a < 2 ^ 53 \<Longrightarrow> norm_down a e = (a, e)"
  by (subst norm_down.simps) simp

lemma norm_up_id: "2 ^ 52 \<le> a \<Longrightarrow> norm_up a e = (a, e)"
  by (subst norm_up.simps) simp

lemma norm_up_steps:
  "a * 2 ^ k < 2 ^ 53 \<Longrightarrow> 2 ^ 52 \<le> a * 2 ^ k \<Longrightarrow> - 1074 \<le> e - int k \<Longrightarrow>
     norm_up a e = (a * 2 ^ k, e - int k)"
proof (induction k arbitrary: a e)
  case 0
  then show ?case by (simp add: norm_up_id)
next
  case (Suc k)
  have pos: "0 < a"
  proof (rule ccontr)
    assume "\<not> 0 < a"
    then have "a * 2 ^ Suc k \<le> 0" by (simp add: mult_le_0_iff)
    with Suc.prems(2) show False by simp
  qed
  have "(1::rat) \<le> 2 ^ k" by simp
  with pos have "a * 2 \<le> a * 2 * 2 ^ k" by simp
  with Suc.prems(1) have "a * 2 < 2 ^ 53" by (simp add: mult.assoc)
  then have small: "a < 2 ^ 52" by simp
  from Suc.prems(3) have e: "- 1074 < e" by simp
  from Suc.prems have "norm_up (a * 2) (e - 1) = (a * 2 * 2 ^ k, e - 1 - int k)"
    by (intro Suc.IH) (simp_all add: mult.assoc)
  with small e show ?case
    by (subst norm_up.simps) (simp add: mult.assoc)
qed

lemma norm_down_steps:
  "a / 2 ^ k < 2 ^ 53 \<Longrightarrow> 2 ^ 52 \<le> a / 2 ^ k \<Longrightarrow> e + int k \<le> 972 \<Longrightarrow>
     norm_down a e = (a / 2 ^ k, e + int k)"
proof (induction k arbitrary: a e)
  case 0
  then show ?case by (simp add: norm_down_id)
next
  case (Suc k)
  have p: "(0::rat) < 2 ^ k" by simp
  from Suc.prems(2) have "2 ^ 52 * (2 * 2 ^ k) \<le> a"
    by (simp add: pos_le_divide_eq)
  moreover have "(2::rat) ^ 53 \<le> 2 ^ 52 * (2 * 2 ^ k)" by simp
  ultimately have big: "2 ^ 53 \<le> a" by linarith
  from Suc.prems(3) have e: "e < 972" by simp
  from Suc.prems have "norm_down (a / 2) (e + 1) = (a / 2 / 2 ^ k, e + 1 + int k)"
    by (intro Suc.IH) simp_all
  with big e show ?case
    by (subst norm_down.simps) simp
qed

text \<open>
  The value of \<open>round_double\<close> at a positive number, from the power of two that scales it
  into \<open>[2^52, 2^53)\<close>.
\<close>

lemma round_double_up:
  assumes "2 ^ 52 \<le> q * 2 ^ k" and "q * 2 ^ k < 2 ^ 53" and "k \<le> 1074"
  shows "round_double q = Fin (of_int (round_half_even (q * 2 ^ k)) / 2 ^ k)"
proof -
  have pos: "0 < q"
  proof (rule ccontr)
    assume "\<not> 0 < q"
    then have "q * 2 ^ k \<le> 0" by (simp add: mult_le_0_iff)
    with assms(1) show False by simp
  qed
  have "(1::rat) \<le> 2 ^ k" by simp
  with pos have "q \<le> q * 2 ^ k" by simp
  with assms(2) have "q < 2 ^ 53" by simp
  with pos have d: "norm_down \<bar>q\<bar> 0 = (q, 0)" by (simp add: norm_down_id)
  from assms have u: "norm_up q 0 = (q * 2 ^ k, 0 - int k)"
    by (intro norm_up_steps) simp_all
  let ?m = "round_half_even (q * 2 ^ k)"
  have "?m \<le> \<lfloor>q * 2 ^ k\<rfloor> + 1" by (rule round_half_even_le)
  moreover from assms(2) have "\<lfloor>q * 2 ^ k\<rfloor> < 2 ^ 53" by (simp add: floor_less_iff)
  ultimately have m: "?m \<le> 2 ^ 53" by linarith
  then have "(of_int ?m :: rat) \<le> 2 ^ 53"
    by (metis of_int_le_iff of_int_numeral of_int_power)
  then have "(of_int ?m :: rat) / 2 ^ k \<le> 2 ^ 53 / 2 ^ k"
    by (simp add: divide_right_mono)
  also have "(2::rat) ^ 53 / 2 ^ k \<le> 2 ^ 53 / 1"
    by (rule divide_left_mono) simp_all
  also have "(2::rat) ^ 53 / 1 < 2 ^ 1024" by simp
  finally have "(of_int ?m :: rat) / 2 ^ k < 2 ^ 1024" .
  then have small: "(2 ^ 1024 \<le> (of_int ?m :: rat) / 2 ^ k) = False" by simp
  from pos have r: "of_int ?m * (\<bar>q\<bar> / (q * 2 ^ k)) = (of_int ?m :: rat) / 2 ^ k"
    by simp
  from pos have nz: "(q = 0) = False" and p: "(0 < q) = True" by simp_all
  show ?thesis
    by (simp only: round_double_def nz p d u r small Let_def prod.case if_False if_True)
qed

lemma round_double_down:
  assumes "2 ^ 52 \<le> q / 2 ^ k" and "q / 2 ^ k < 2 ^ 53" and "k \<le> 970"
  shows "round_double q = Fin (of_int (round_half_even (q / 2 ^ k)) * 2 ^ k)"
proof -
  have p: "(0::rat) < 2 ^ k" by simp
  from assms(1) have "2 ^ 52 * 2 ^ k \<le> q" by (simp add: pos_le_divide_eq)
  moreover have "(0::rat) < 2 ^ 52 * 2 ^ k" by simp
  ultimately have pos: "0 < q" by linarith
  from assms have "norm_down q 0 = (q / 2 ^ k, 0 + int k)"
    by (intro norm_down_steps) simp_all
  with pos have d: "norm_down \<bar>q\<bar> 0 = (q / 2 ^ k, 0 + int k)" by simp
  from assms(1) have u: "norm_up (q / 2 ^ k) (0 + int k) = (q / 2 ^ k, 0 + int k)"
    by (rule norm_up_id)
  let ?m = "round_half_even (q / 2 ^ k)"
  have "?m \<le> \<lfloor>q / 2 ^ k\<rfloor> + 1" by (rule round_half_even_le)
  moreover from assms(2) have "\<lfloor>q / 2 ^ k\<rfloor> < 2 ^ 53" by (simp add: floor_less_iff)
  ultimately have m: "?m \<le> 2 ^ 53" by linarith
  then have "(of_int ?m :: rat) \<le> 2 ^ 53"
    by (metis of_int_le_iff of_int_numeral of_int_power)
  then have "(of_int ?m :: rat) * 2 ^ k \<le> 2 ^ 53 * 2 ^ k"
    by (simp add: mult_right_mono)
  also have "\<dots> = 2 ^ (53 + k)" by (simp add: power_add)
  also from assms(3) have "\<dots> < (2::rat) ^ 1024"
    by (intro power_strict_increasing) simp_all
  finally have "(of_int ?m :: rat) * 2 ^ k < 2 ^ 1024" .
  then have small: "(2 ^ 1024 \<le> (of_int ?m :: rat) * 2 ^ k) = False" by simp
  from pos have r: "of_int ?m * (\<bar>q\<bar> / (q / 2 ^ k)) = (of_int ?m :: rat) * 2 ^ k"
    by simp
  from pos have nz: "(q = 0) = False" and p: "(0 < q) = True" by simp_all
  show ?thesis
    by (simp only: round_double_def nz p d u r small Let_def prod.case if_False if_True)
qed

text \<open>An integer below \<open>2^53\<close> is a double, and so is four times such an integer.\<close>

lemma norm_up_scale: "\<exists>j. norm_up a e = (a * 2 ^ j, e - int j)"
proof (induction a e rule: norm_up.induct)
  case (1 a e)
  show ?case
  proof (cases "a < 2 ^ 52 \<and> - 1074 < e")
    case True
    with "1.IH" obtain j where "norm_up (a * 2) (e - 1) = (a * 2 * 2 ^ j, e - 1 - int j)"
      by blast
    with True have "norm_up a e = (a * 2 ^ Suc j, e - int (Suc j))"
      by (subst norm_up.simps) (simp add: mult.assoc)
    then show ?thesis by blast
  next
    case False
    then have "norm_up a e = (a * 2 ^ 0, e - int 0)"
      by (subst norm_up.simps) auto
    then show ?thesis by blast
  qed
qed

lemma round_double_int:
  assumes "0 < n" and "n < 2 ^ 53"
  shows "round_double (of_int n) = Fin (of_int n)"
proof -
  let ?q = "of_int n :: rat"
  from assms have pos: "0 < ?q" and small: "?q < 2 ^ 53"
    by (simp_all add: of_int_less_numeral_power_cancel_iff)
  then have d: "norm_down \<bar>?q\<bar> 0 = (?q, 0)" by (simp add: norm_down_id)
  obtain j where u: "norm_up ?q 0 = (?q * 2 ^ j, 0 - int j)"
    using norm_up_scale by blast
  have "?q * 2 ^ j = of_int (n * 2 ^ j)" by simp
  then have m: "round_half_even (?q * 2 ^ j) = n * 2 ^ j"
    by (simp only: round_half_even_int)
  from pos have r: "of_int (n * 2 ^ j) * (\<bar>?q\<bar> / (?q * 2 ^ j)) = ?q" by simp
  have "(2::rat) ^ 53 \<le> 2 ^ 1024" by simp
  with small have "\<not> 2 ^ 1024 \<le> ?q" by linarith
  then have ns: "(2 ^ 1024 \<le> ?q) = False" by simp
  from pos have nz: "(?q = 0) = False" and p: "(0 < ?q) = True" by simp_all
  show ?thesis
    by (simp only: round_double_def nz p d u m r ns Let_def prod.case if_False if_True)
qed

lemma round_double_nat: "n < 2 ^ 53 \<Longrightarrow> round_double (of_nat n) = Fin (of_nat n)"
proof (cases "n = 0")
  case True
  then show ?thesis by (simp add: round_double_def)
next
  case False
  assume "n < 2 ^ 53"
  then have "int n < 2 ^ 53" by (metis of_nat_less_iff of_nat_numeral of_nat_power)
  with False have "round_double (of_int (int n)) = Fin (of_int (int n))"
    by (intro round_double_int) simp_all
  then show ?thesis by simp
qed

lemma round_double_four_times:
  assumes "n < 2 ^ 53"
  shows "round_double (4 * of_nat n) = Fin (4 * of_nat n)"
proof -
  let ?q = "of_nat n :: rat"
  from assms have q: "?q < 2 ^ 53"
    by (metis of_nat_less_iff of_nat_numeral of_nat_power)
  consider "4 * n < 2 ^ 53" | "2 ^ 53 \<le> 4 * n" "2 * n < 2 ^ 53" | "2 ^ 53 \<le> 2 * n"
    by linarith
  then show ?thesis
  proof cases
    case 1
    then have "round_double (of_nat (4 * n)) = Fin (of_nat (4 * n))" by (rule round_double_nat)
    then show ?thesis by simp
  next
    case 2
    then have "(2::rat) ^ 53 \<le> 4 * ?q" and "2 * ?q < 2 ^ 53"
      by (metis of_nat_le_iff of_nat_numeral of_nat_power of_nat_mult,
          metis of_nat_less_iff of_nat_numeral of_nat_power of_nat_mult)
    then have "2 ^ 52 \<le> 4 * ?q / 2 ^ 1" and "4 * ?q / 2 ^ 1 < 2 ^ 53" by simp_all
    then have "round_double (4 * ?q) = Fin (of_int (round_half_even (4 * ?q / 2 ^ 1)) * 2 ^ 1)"
      by (rule round_double_down) simp
    moreover have "4 * ?q / 2 ^ 1 = of_int (2 * int n)" by simp
    ultimately show ?thesis by (simp only: round_half_even_int) simp
  next
    case 3
    then have "(2::rat) ^ 53 \<le> 2 * ?q"
      by (metis of_nat_le_iff of_nat_numeral of_nat_power of_nat_mult)
    with q have "2 ^ 52 \<le> 4 * ?q / 2 ^ 2" and "4 * ?q / 2 ^ 2 < 2 ^ 53" by simp_all
    then have "round_double (4 * ?q) = Fin (of_int (round_half_even (4 * ?q / 2 ^ 2)) * 2 ^ 2)"
      by (rule round_double_down) simp
    moreover have "4 * ?q / 2 ^ 2 = of_int (int n)" by simp
    ultimately show ?thesis by (simp only: round_half_even_int) simp
  qed
qed

section \<open>Doubles of the examples\<close>

lemma double_1_10: "round_double (1 / 10) = Fin (3602879701896397 / 36028797018963968)"
proof -
  have "round_half_even ((1 / 10) * 2 ^ 56) = 7205759403792794"
    by (rule round_half_even_above) simp_all
  then show ?thesis
    using round_double_up [of "1 / 10" 56] by simp
qed

lemma double_18014398509481985_18014398509481984: "round_double (18014398509481985 / 18014398509481984) = Fin 1"
proof -
  have "round_half_even ((18014398509481985 / 18014398509481984) * 2 ^ 52) = 4503599627370496"
    by (rule round_half_even_below) simp_all
  then show ?thesis
    using round_double_up [of "18014398509481985 / 18014398509481984" 52] by simp
qed

lemma double_1000: "round_double 1000 = Fin 1000"
  using round_double_int [of 1000] by simp

lemma double_10: "round_double 10 = Fin 10"
  using round_double_int [of 10] by simp

lemma double_1200: "round_double 1200 = Fin 1200"
  using round_double_int [of 1200] by simp

lemma double_1_5: "round_double (1 / 5) = Fin (3602879701896397 / 18014398509481984)"
proof -
  have "round_half_even ((1 / 5) * 2 ^ 55) = 7205759403792794"
    by (rule round_half_even_above) simp_all
  then show ?thesis
    using round_double_up [of "1 / 5" 55] by simp
qed

lemma double_18014398509481985_9007199254740992: "round_double (18014398509481985 / 9007199254740992) = Fin 2"
proof -
  have "round_half_even ((18014398509481985 / 9007199254740992) * 2 ^ 51) = 4503599627370496"
    by (rule round_half_even_below) simp_all
  then show ?thesis
    using round_double_up [of "18014398509481985 / 9007199254740992" 51] by simp
qed

lemma double_2000: "round_double 2000 = Fin 2000"
  using round_double_int [of 2000] by simp

lemma double_20: "round_double 20 = Fin 20"
  using round_double_int [of 20] by simp

lemma double_100: "round_double 100 = Fin 100"
  using round_double_int [of 100] by simp

lemma double_3152519739159347_4503599627370496: "round_double (3152519739159347 / 4503599627370496) = Fin (3152519739159347 / 4503599627370496)"
proof -
  have "((3152519739159347 / 4503599627370496) :: rat) * 2 ^ 53 = of_int 6305039478318694" by simp
  then have "round_half_even ((3152519739159347 / 4503599627370496) * 2 ^ 53) = 6305039478318694"
    by (simp only: round_half_even_int)
  then show ?thesis
    using round_double_up [of "3152519739159347 / 4503599627370496" 53] by simp
qed

lemma double_15762598695796735_2251799813685248: "round_double (15762598695796735 / 2251799813685248) = Fin 7"
proof -
  have "round_half_even ((15762598695796735 / 2251799813685248) * 2 ^ 50) = (if even (7881299347898367::int) then 7881299347898367 else 7881299347898367 + 1)"
    by (rule round_half_even_tie) simp
  then have "round_half_even ((15762598695796735 / 2251799813685248) * 2 ^ 50) = 7881299347898368"
    by simp
  then show ?thesis
    using round_double_up [of "15762598695796735 / 2251799813685248" 50] by simp
qed

lemma double_78812993478983675_1125899906842624: "round_double (78812993478983675 / 1125899906842624) = Fin 70"
proof -
  have "round_half_even ((78812993478983675 / 1125899906842624) * 2 ^ 46) = 4925812092436480"
    by (rule round_half_even_above) simp_all
  then show ?thesis
    using round_double_up [of "78812993478983675 / 1125899906842624" 46] by simp
qed

lemma double_70: "round_double 70 = Fin 70"
  using round_double_int [of 70] by simp

lemma double_7: "round_double 7 = Fin 7"
  using round_double_int [of 7] by simp

lemma double_3_4000: "round_double (3 / 4000) = Fin (3458764513820541 / 4611686018427387904)"
proof -
  have "round_half_even ((3 / 4000) * 2 ^ 63) = 6917529027641082"
    by (rule round_half_even_above) simp_all
  then show ?thesis
    using round_double_up [of "3 / 4000" 63] by simp
qed

lemma double_17293822569102705_2305843009213693952: "round_double (17293822569102705 / 2305843009213693952) = Fin (1080863910568919 / 144115188075855872)"
proof -
  have "round_half_even ((17293822569102705 / 2305843009213693952) * 2 ^ 60) = (if even (8646911284551352::int) then 8646911284551352 else 8646911284551352 + 1)"
    by (rule round_half_even_tie) simp
  then have "round_half_even ((17293822569102705 / 2305843009213693952) * 2 ^ 60) = 8646911284551352"
    by simp
  then show ?thesis
    using round_double_up [of "17293822569102705 / 2305843009213693952" 60] by simp
qed

lemma double_300: "round_double 300 = Fin 300"
  using round_double_int [of 300] by simp

lemma double_3_40: "round_double (3 / 40) = Fin (5404319552844595 / 72057594037927936)"
proof -
  have "round_half_even ((3 / 40) * 2 ^ 56) = 5404319552844595"
    by (rule round_half_even_below) simp_all
  then show ?thesis
    using round_double_up [of "3 / 40" 56] by simp
qed

lemma double_500: "round_double 500 = Fin 500"
  using round_double_int [of 500] by simp

lemmas double_examples =
  double_1_10
  double_18014398509481985_18014398509481984
  double_1000
  double_10
  double_1200
  double_1_5
  double_18014398509481985_9007199254740992
  double_2000
  double_20
  double_100
  double_3152519739159347_4503599627370496
  double_15762598695796735_2251799813685248
  double_78812993478983675_1125899906842624
  double_70
  double_7
  double_3_4000
  double_17293822569102705_2305843009213693952
  double_300
  double_3_40
  double_500

lemma score_10_of_100: "misery_score (Fin 10) (Fin 100) 10 = Fin 1"
  by (simp add: misery_score_def double_examples)

lemma quotient_10_of_100:
  "jdiv (jmul (Fin 100) (Fin 10)) (Math_max (Fin 100) (Fin 1)) = Fin 10"
  by (simp add: double_examples)

lemma score_20_of_100: "misery_score (Fin 20) (Fin 100) 10 = Fin 2"
  by (simp add: misery_score_def double_examples)

lemma quotient_20_of_100:
  "jdiv (jmul (Fin 100) (Fin 20)) (Math_max (Fin 100) (Fin 1)) = Fin 20"
  by (simp add: double_examples)

lemma score_10_of_0: "misery_score (Fin 10) (Fin 0) 10 = Fin 100"
  by (simp add: misery_score_def double_examples)

lemma quotient_10_of_0:
  "jdiv (jmul (Fin 100) (Fin 10)) (Math_max (Fin 0) (Fin 1)) = Fin 1000"
  by (simp add: double_examples)

lemma score_d07_of_1: "misery_score (Fin (3152519739159347 / 4503599627370496)) (Fin 1) 10 = Fin 7"
  by (simp add: misery_score_def double_examples)

lemma quotient_d07_of_1:
  "jdiv (jmul (Fin 100) (Fin (3152519739159347 / 4503599627370496))) (Math_max (Fin 1) (Fin 1)) = Fin 70"
  by (simp add: double_examples)

lemma score_3_of_4000: "misery_score (Fin 3) (Fin 4000) 10 = Fin 0"
  by (simp add: misery_score_def double_examples floor_eq_iff)

lemma quotient_3_of_4000:
  "jdiv (jmul (Fin 100) (Fin 3)) (Math_max (Fin 4000) (Fin 1)) = Fin (5404319552844595 / 72057594037927936)"
  by (simp add: double_examples)

lemma toFixed_10: "toFixed rt (Fin 10) 2 = ''10.00''"
  by code_simp

lemma toFixed_20: "toFixed rt (Fin 20) 2 = ''20.00''"
  by code_simp

lemma toFixed_70: "toFixed rt (Fin 70) 2 = ''70.00''"
  by code_simp

lemma toFixed_5404319552844595_72057594037927936: "toFixed rt (Fin (5404319552844595 / 72057594037927936)) 2 = ''0.07''"
  by code_simp

lemma duration_300: "jmul (Fin 4) (Fin 300) = Fin 1200"
  by (simp add: double_examples)

lemma duration_500: "jmul (Fin 4) (Fin 500) = Fin 2000"
  by (simp add: double_examples)

section \<open>The resolvers: sort fields\<close>

text \<open>
  C6. \<open>getSortField('issue', meta)\<close> is \<open>null\<close> whatever the metadata argument is,
  \<open>undefined\<close> included, and whatever the table of aggregations holds.
\<close>

theorem getSortField_issue:
  "getSortField AGGREGATIONS rt ''issue'' tableMeta = None"
  by (simp add: getSortField_def SPECIAL_FIELDS_def)

theorem getSortField_issue_witness:
  "getSortField [] example_runtime ''issue'' None = None \<and>
   getSortField [(''count'', \<lparr>aggIsSortable = True\<rparr>)] example_runtime ''issue''
     (Some [''issue'' \<mapsto> ''string'']) = None"
  using getSortField_issue [of "[]" example_runtime None]
    getSortField_issue [of "[(''count'', \<lparr>aggIsSortable = True\<rparr>)]" example_runtime
      "Some [''issue'' \<mapsto> ''string'']"]
  by simp

text \<open>
  C7. With \<open>undefined\<close> as the metadata argument, \<open>getSortField\<close> returns the name of
  every field that is not a key of \<open>SPECIAL_FIELDS\<close> unchanged; and
  \<open>getSortField('id', undefined)\<close> is \<open>'id'\<close>.
\<close>

theorem getSortField_no_meta:
  "(map_of (SPECIAL_FIELDS rt) field = None \<longrightarrow>
      getSortField AGGREGATIONS rt field None = Some field) \<and>
   getSortField AGGREGATIONS rt ''id'' None = Some ''id''"
  by (simp add: getSortField_def SPECIAL_FIELDS_def)

theorem getSortField_no_meta_witness:
  "map_of (SPECIAL_FIELDS example_runtime) ''title'' = None \<and>
   getSortField [(''count'', \<lparr>aggIsSortable = False\<rparr>)] example_runtime ''title'' None =
     Some ''title'' \<and>
   getSortField [(''count'', \<lparr>aggIsSortable = False\<rparr>)] example_runtime ''id'' None =
     Some ''id''"
  using getSortField_no_meta
    [of example_runtime "''title''" "[(''count'', \<lparr>aggIsSortable = False\<rparr>)]"]
  by (simp add: SPECIAL_FIELDS_def)

section \<open>The resolvers: renderers\<close>

text \<open>
  C1. The order of \<open>getFieldRenderer\<close>: a field that is a key of \<open>SPECIAL_FIELDS\<close> gets
  the renderer of that entry; otherwise, a normalized name that starts with a key of
  \<open>SPECIAL_FUNCTIONS\<close> gets that function; otherwise the formatter of the type that the
  metadata declare for the normalized name, applied to that name; otherwise, when no type is
  declared or the type is not a key of \<open>FIELD_FORMATTERS\<close>, the string formatter.
\<close>

theorem getFieldRenderer_priority:
  "(map_of (SPECIAL_FIELDS rt) field = Some special \<longrightarrow>
      getFieldRenderer getAggregateAlias rt field meta = specialRenderFunc special) \<and>
   (map_of (SPECIAL_FIELDS rt) field = None \<and> (p, f) \<in> set (SPECIAL_FUNCTIONS rt) \<and>
    startsWith (getAggregateAlias field) p \<longrightarrow>
      getFieldRenderer getAggregateAlias rt field meta = f) \<and>
   (map_of (SPECIAL_FIELDS rt) field = None \<and>
    (\<forall>(p, f) \<in> set (SPECIAL_FUNCTIONS rt). \<not> startsWith (getAggregateAlias field) p) \<and>
    meta (getAggregateAlias field) = Some ty \<and> map_of FIELD_FORMATTERS ty = Some formatter \<longrightarrow>
      getFieldRenderer getAggregateAlias rt field meta =
        renderFunc formatter (getAggregateAlias field)) \<and>
   (map_of (SPECIAL_FIELDS rt) field = None \<and>
    (\<forall>(p, f) \<in> set (SPECIAL_FUNCTIONS rt). \<not> startsWith (getAggregateAlias field) p) \<and>
    (\<forall>ty. meta (getAggregateAlias field) = Some ty \<longrightarrow> map_of FIELD_FORMATTERS ty = None) \<longrightarrow>
      getFieldRenderer getAggregateAlias rt field meta =
        string_renderFunc (getAggregateAlias field))"
proof (intro conjI impI)
  assume "map_of (SPECIAL_FIELDS rt) field = Some special"
  then show "getFieldRenderer getAggregateAlias rt field meta = specialRenderFunc special"
    by (simp add: getFieldRenderer_def)
next
  assume "map_of (SPECIAL_FIELDS rt) field = None \<and> (p, f) \<in> set (SPECIAL_FUNCTIONS rt) \<and>
    startsWith (getAggregateAlias field) p"
  then show "getFieldRenderer getAggregateAlias rt field meta = f"
    by (auto simp: getFieldRenderer_def SPECIAL_FUNCTIONS_def Let_def)
next
  assume "map_of (SPECIAL_FIELDS rt) field = None \<and>
    (\<forall>(p, f) \<in> set (SPECIAL_FUNCTIONS rt). \<not> startsWith (getAggregateAlias field) p) \<and>
    meta (getAggregateAlias field) = Some ty \<and> map_of FIELD_FORMATTERS ty = Some formatter"
  then show "getFieldRenderer getAggregateAlias rt field meta =
      renderFunc formatter (getAggregateAlias field)"
    by (auto simp: getFieldRenderer_def SPECIAL_FUNCTIONS_def Let_def)
next
  assume a: "map_of (SPECIAL_FIELDS rt) field = None \<and>
    (\<forall>(p, f) \<in> set (SPECIAL_FUNCTIONS rt). \<not> startsWith (getAggregateAlias field) p) \<and>
    (\<forall>ty. meta (getAggregateAlias field) = Some ty \<longrightarrow> map_of FIELD_FORMATTERS ty = None)"
  show "getFieldRenderer getAggregateAlias rt field meta =
      string_renderFunc (getAggregateAlias field)"
  proof (cases "meta (getAggregateAlias field)")
    case None
    with a show ?thesis
      by (auto simp: getFieldRenderer_def SPECIAL_FUNCTIONS_def string_formatter_def Let_def)
  next
    case (Some ty)
    with a have "map_of FIELD_FORMATTERS ty = None" by simp
    with a Some show ?thesis
      by (auto simp: getFieldRenderer_def SPECIAL_FUNCTIONS_def string_formatter_def Let_def)
  qed
qed

theorem getFieldRenderer_priority_witness:
  "getFieldRenderer (\<lambda>field. field) example_runtime ''issue'' [''issue'' \<mapsto> ''string''] =
     issue_renderFunc example_runtime \<and>
   getFieldRenderer (\<lambda>field. field) example_runtime ''user_misery_300''
       [''user_misery_300'' \<mapsto> ''number''] =
     user_misery example_runtime \<and>
   getFieldRenderer (\<lambda>field. field) example_runtime ''count'' [''count'' \<mapsto> ''integer''] =
     integer_renderFunc ''count'' \<and>
   getFieldRenderer (\<lambda>field. field) example_runtime ''title'' [''title'' \<mapsto> ''text''] =
     string_renderFunc ''title'' \<and>
   getFieldRenderer (\<lambda>field. field) example_runtime ''title'' Map.empty =
     string_renderFunc ''title''"
  using
    getFieldRenderer_priority [where rt = example_runtime and field = "''issue''"
      and getAggregateAlias = "\<lambda>field. field" and meta = "[''issue'' \<mapsto> ''string'']"
      and special = "\<lparr>sortField = None, specialRenderFunc = issue_renderFunc example_runtime\<rparr>"]
    getFieldRenderer_priority [where rt = example_runtime and field = "''user_misery_300''"
      and getAggregateAlias = "\<lambda>field. field" and meta = "[''user_misery_300'' \<mapsto> ''number'']"
      and p = "''user_misery''" and f = "user_misery example_runtime"]
    getFieldRenderer_priority [where rt = example_runtime and field = "''count''"
      and getAggregateAlias = "\<lambda>field. field" and meta = "[''count'' \<mapsto> ''integer'']"
      and ty = "''integer''"
      and formatter = "\<lparr>isSortable = True, renderFunc = integer_renderFunc\<rparr>"]
    getFieldRenderer_priority [where rt = example_runtime and field = "''title''"
      and getAggregateAlias = "\<lambda>field. field" and meta = "[''title'' \<mapsto> ''text'']"]
    getFieldRenderer_priority [where rt = example_runtime and field = "''title''"
      and getAggregateAlias = "\<lambda>field. field" and meta = "Map.empty"]
  by (simp add: SPECIAL_FIELDS_def SPECIAL_FUNCTIONS_def FIELD_FORMATTERS_def startsWith_def)

section \<open>Special fields\<close>

text \<open>What the \<open>issue.id\<close> and \<open>issue\<close> renderers do on a row, case by case.\<close>

lemma issue_id_renderFunc_result:
  "issue_id_renderFunc rt (Some row) baggage =
     (if unconvertible (own row ''issue.id'') then Inl TypeError
      else Inr (Container
        [OverflowLink
           (''/organizations/'' @ slug (organization baggage) @ ''/issues/'' @
            to_string rt (own row ''issue.id'') @ ''/'')
           (own row ''issue.id'')
           [Child (own row ''issue.id'')]]))"
  by (simp add: issue_id_renderFunc_def)

lemma issue_renderFunc_falsy:
  "\<not> truthy (own row ''issue.id'') \<Longrightarrow>
     issue_renderFunc rt (Some row) baggage =
       (if unconvertible (own row ''issue'') then Inl TypeError
        else Inr (Container [StyledShortId (to_string rt (own row ''issue''))]))"
  by (simp add: issue_renderFunc_def)

lemma issue_renderFunc_truthy:
  "truthy (own row ''issue.id'') \<Longrightarrow>
     issue_renderFunc rt (Some row) baggage =
       (if unconvertible (own row ''issue.id'') \<or> unconvertible (own row ''issue'')
        then Inl TypeError
        else Inr (Container
          [OverflowLink
             (''/organizations/'' @ slug (organization baggage) @ ''/issues/'' @
              to_string rt (own row ''issue.id'') @ ''/'')
             (own row ''issue.id'')
             [StyledShortId (to_string rt (own row ''issue''))]]))"
  by (cases "unconvertible (own row ''issue.id'')") (simp_all add: issue_renderFunc_def)

text \<open>
  C10. The \<open>issue\<close> renderer takes every falsy value of the field \<open>issue.id\<close> (an absent
  field, \<open>0\<close> and the empty string among them) as no issue id and renders the short-id
  badge alone; it wraps the badge in the link to the issue exactly when \<open>issue.id\<close> is
  truthy. The one other outcome is the \<open>TypeError\<close> of a template literal whose value does
  not convert to a string.
\<close>

theorem issue_renderFunc_link:
  "(\<not> truthy (own row ''issue.id'') \<longrightarrow>
      issue_renderFunc rt (Some row) baggage =
        (if unconvertible (own row ''issue'') then Inl TypeError
         else Inr (Container [StyledShortId (to_string rt (own row ''issue''))]))) \<and>
   (truthy (own row ''issue.id'') \<longrightarrow>
      issue_renderFunc rt (Some row) baggage =
        (if unconvertible (own row ''issue.id'') \<or> unconvertible (own row ''issue'')
         then Inl TypeError
         else Inr (Container
           [OverflowLink
              (''/organizations/'' @ slug (organization baggage) @ ''/issues/'' @
               to_string rt (own row ''issue.id'') @ ''/'')
              (own row ''issue.id'')
              [StyledShortId (to_string rt (own row ''issue''))]]))) \<and>
   (map_of row ''issue.id'' = None \<or> own row ''issue.id'' = Num (Fin 0) \<or>
    own row ''issue.id'' = Str [] \<longrightarrow> \<not> truthy (own row ''issue.id''))"
proof (intro conjI impI)
  assume "\<not> truthy (own row ''issue.id'')"
  then show "issue_renderFunc rt (Some row) baggage =
      (if unconvertible (own row ''issue'') then Inl TypeError
       else Inr (Container [StyledShortId (to_string rt (own row ''issue''))]))"
    by (rule issue_renderFunc_falsy)
next
  assume "truthy (own row ''issue.id'')"
  then show "issue_renderFunc rt (Some row) baggage =
      (if unconvertible (own row ''issue.id'') \<or> unconvertible (own row ''issue'')
       then Inl TypeError
       else Inr (Container
         [OverflowLink
            (''/organizations/'' @ slug (organization baggage) @ ''/issues/'' @
             to_string rt (own row ''issue.id'') @ ''/'')
            (own row ''issue.id'')
            [StyledShortId (to_string rt (own row ''issue''))]]))"
    by (rule issue_renderFunc_truthy)
next
  assume "map_of row ''issue.id'' = None \<or> own row ''issue.id'' = Num (Fin 0) \<or>
    own row ''issue.id'' = Str []"
  then show "\<not> truthy (own row ''issue.id'')"
    by (auto simp: own_def)
qed

lemma number_str_42: "number_str rt (Fin 42) = ''42''"
  by code_simp

theorem issue_renderFunc_link_witness:
  "issue_renderFunc example_runtime (Some [(''issue'', Str ''ACME-1'')]) example_baggage =
     Inr (Container [StyledShortId ''ACME-1'']) \<and>
   issue_renderFunc example_runtime
       (Some [(''issue'', Str ''ACME-1''), (''issue.id'', Num (Fin 0))]) example_baggage =
     Inr (Container [StyledShortId ''ACME-1'']) \<and>
   issue_renderFunc example_runtime
       (Some [(''issue'', Str ''ACME-1''), (''issue.id'', Str [])]) example_baggage =
     Inr (Container [StyledShortId ''ACME-1'']) \<and>
   issue_renderFunc example_runtime
       (Some [(''issue'', Str ''ACME-1''), (''issue.id'', Num (Fin 42))]) example_baggage =
     Inr (Container
       [OverflowLink ''/organizations/acme/issues/42/'' (Num (Fin 42))
          [StyledShortId ''ACME-1'']])"
  using
    issue_renderFunc_link [of "[(''issue'', Str ''ACME-1'')]" example_runtime example_baggage]
    issue_renderFunc_link [of "[(''issue'', Str ''ACME-1''), (''issue.id'', Num (Fin 0))]"
      example_runtime example_baggage]
    issue_renderFunc_link [of "[(''issue'', Str ''ACME-1''), (''issue.id'', Str [])]"
      example_runtime example_baggage]
    issue_renderFunc_link [of "[(''issue'', Str ''ACME-1''), (''issue.id'', Num (Fin 42))]"
      example_runtime example_baggage]
  by (simp add: own_def example_baggage_def number_str_42)

section \<open>Formatters\<close>

text \<open>
  C4. When the value of the field is a non-empty array, the string formatter renders the
  slice that holds its last element only, which React reads as that element alone (for
  \<open>["a","b","c"]\<close> the child is \<open>["c"]\<close>, read as \<open>"c"\<close>); when the value is not an array it
  renders the value as it is.
\<close>

theorem string_renderFunc_tail:
  "(own row field = Arr xs \<and> xs \<noteq> [] \<longrightarrow>
      string_renderFunc field (Some row) baggage = Inr (Container [Child (Arr [last xs])]) \<and>
      flatten_child (Arr [last xs]) = flatten_child (last xs)) \<and>
   (\<not> isArray (own row field) \<longrightarrow>
      string_renderFunc field (Some row) baggage = Inr (Container [Child (own row field)])) \<and>
   string_renderFunc ''f'' (Some [(''f'', Arr [Str ''a'', Str ''b'', Str ''c''])]) baggage =
     Inr (Container [Child (Arr [Str ''c''])]) \<and>
   flatten_child (Arr [Str ''c'']) = [Str ''c'']"
proof (intro conjI impI)
  assume "own row field = Arr xs \<and> xs \<noteq> []"
  then show "string_renderFunc field (Some row) baggage = Inr (Container [Child (Arr [last xs])])"
    by (simp add: string_renderFunc_def slice_last_nonempty)
next
  show "flatten_child (Arr [last xs]) = flatten_child (last xs)" by simp
next
  assume "\<not> isArray (own row field)"
  then show "string_renderFunc field (Some row) baggage = Inr (Container [Child (own row field)])"
    by (cases "own row field") (simp_all add: string_renderFunc_def)
next
  show "string_renderFunc ''f'' (Some [(''f'', Arr [Str ''a'', Str ''b'', Str ''c''])]) baggage =
     Inr (Container [Child (Arr [Str ''c''])])"
    by (simp add: string_renderFunc_def own_def slice_last_def)
next
  show "flatten_child (Arr [Str ''c'']) = [Str ''c'']" by simp
qed

theorem string_renderFunc_tail_witness:
  "string_renderFunc ''stack.filename''
       (Some [(''stack.filename'', Arr [Str ''a.js'', Str ''b.js''])]) example_baggage =
     Inr (Container [Child (Arr [Str ''b.js''])]) \<and>
   flatten_child (Arr [Str ''b.js'']) = [Str ''b.js''] \<and>
   string_renderFunc ''title'' (Some [(''title'', Str ''boom'')]) example_baggage =
     Inr (Container [Child (Str ''boom'')]) \<and>
   string_renderFunc ''title'' (Some []) example_baggage =
     Inr (Container [Child Undefined])"
  using
    string_renderFunc_tail [of "[(''stack.filename'', Arr [Str ''a.js'', Str ''b.js''])]"
      "''stack.filename''" "[Str ''a.js'', Str ''b.js'']" example_baggage]
    string_renderFunc_tail [of "[(''title'', Str ''boom'')]" "''title''" "[]" example_baggage]
    string_renderFunc_tail [of "[]" "''title''" "[]" example_baggage]
  by (simp add: own_def)

lemma numeric_placeholder:
  assumes "typeof (own row field) \<noteq> ''number''"
  shows "duration_renderFunc field (Some row) baggage = Inr (NumberContainer [emptyValue])"
    and "integer_renderFunc field (Some row) baggage = Inr (NumberContainer [emptyValue])"
    and "number_renderFunc field (Some row) baggage = Inr (NumberContainer [emptyValue])"
    and "percentage_renderFunc field (Some row) baggage = Inr (NumberContainer [emptyValue])"
  using assms
  by (cases "own row field";
      simp add: duration_renderFunc_def integer_renderFunc_def number_renderFunc_def
        percentage_renderFunc_def)+

section \<open>The misery field\<close>

lemma misery_loop:
  "foldl (\<lambda>userMiseryField field.
            if startsWith field ''user_misery'' then field else userMiseryField) acc names =
     (case filter (\<lambda>field. startsWith field ''user_misery'') names of
        [] \<Rightarrow> acc
      | f # fs \<Rightarrow> last (f # fs))"
  by (induction names arbitrary: acc) (auto split: list.splits)

lemma userMiseryField_of_last:
  "userMiseryField_of row = (if misery_fields row = [] then [] else last (misery_fields row))"
  by (simp add: userMiseryField_of_def misery_fields_def misery_loop split: list.splits)

lemma misery_fields_nonempty_name:
  assumes "misery_fields row \<noteq> []"
  shows "last (misery_fields row) \<noteq> []"
proof -
  from assms have "last (misery_fields row) \<in> set (misery_fields row)" by (rule last_in_set)
  then have "startsWith (last (misery_fields row)) ''user_misery''"
    by (simp add: misery_fields_def)
  then show ?thesis by (auto simp: startsWith_def)
qed

lemma user_misery_cell:
  "misery_fields row \<noteq> [] \<Longrightarrow>
     user_misery rt (Some row) baggage =
       misery_cell rt (own row ''count_unique_user'') (last (misery_fields row))
         (own row (last (misery_fields row)))"
  by (simp add: user_misery_def userMiseryField_of_last misery_fields_nonempty_name Let_def)

lemma user_misery_no_field:
  "misery_fields row = [] \<Longrightarrow>
     user_misery rt (Some row) baggage = Inr (NumberContainer [emptyValue])"
  by (simp add: user_misery_def userMiseryField_of_last Let_def)

text \<open>
  C2, as amended. The \<open>user_misery\<close> renderer takes as the misery field the last field, in
  the order of enumeration, whose name starts with \<open>user_misery\<close>; when the row has no such
  field it returns the numeric container that holds the empty-value placeholder, and does
  not fail.
\<close>

theorem user_misery_last_field:
  "(misery_fields row = [] \<longrightarrow>
      user_misery rt (Some row) baggage = Inr (NumberContainer [emptyValue])) \<and>
   (misery_fields row \<noteq> [] \<longrightarrow>
      userMiseryField_of row = last (misery_fields row) \<and>
      user_misery rt (Some row) baggage =
        misery_cell rt (own row ''count_unique_user'') (last (misery_fields row))
          (own row (last (misery_fields row))))"
  by (simp add: user_misery_cell user_misery_no_field userMiseryField_of_last)

lemma example_fields_300_500:
  "misery_fields
     [(''count_unique_user'', Num (Fin 100)), (''user_misery_300'', Num (Fin 10)),
      (''user_misery_500'', Num (Fin 20))] = [''user_misery_300'', ''user_misery_500'']"
  by (simp add: misery_fields_def startsWith_def)

theorem user_misery_last_field_witness:
  "misery_fields [(''count_unique_user'', Num (Fin 100))] = [] \<and>
   user_misery example_runtime (Some [(''count_unique_user'', Num (Fin 100))]) example_baggage =
     Inr (NumberContainer [Span [T ''n/a'']]) \<and>
   misery_fields
     [(''count_unique_user'', Num (Fin 100)), (''user_misery_300'', Num (Fin 10)),
      (''user_misery_500'', Num (Fin 20))] \<noteq> [] \<and>
   userMiseryField_of
     [(''count_unique_user'', Num (Fin 100)), (''user_misery_300'', Num (Fin 10)),
      (''user_misery_500'', Num (Fin 20))] = ''user_misery_500'' \<and>
   user_misery example_runtime
     (Some [(''count_unique_user'', Num (Fin 100)), (''user_misery_300'', Num (Fin 10)),
            (''user_misery_500'', Num (Fin 20))]) example_baggage =
     misery_cell example_runtime (Num (Fin 100)) ''user_misery_500'' (Num (Fin 20))"
  using
    user_misery_last_field [of "[(''count_unique_user'', Num (Fin 100))]" example_runtime
      example_baggage]
    user_misery_last_field
      [of "[(''count_unique_user'', Num (Fin 100)), (''user_misery_300'', Num (Fin 10)),
            (''user_misery_500'', Num (Fin 20))]" example_runtime example_baggage]
  by (simp add: example_fields_300_500 own_def emptyValue_def)
    (simp add: misery_fields_def startsWith_def)

lemma misery_limit_500: "misery_limit ''user_misery_500'' = Fin 500"
  by (simp add: misery_limit_def parseInt10_def is_space_def is_digit_def digits_value_def
      double_500)

text \<open>
  C2, the claim as it stands, fails on a row with two misery fields: the first one is
  \<open>user_misery_300\<close>, and the bar that is rendered is the one of \<open>user_misery_500\<close> (20 of
  100 users, score 2, 2000 ms).
\<close>

theorem user_misery_first_field_counterexample:
  "first_misery_field
     [(''count_unique_user'', Num (Fin 100)), (''user_misery_300'', Num (Fin 10)),
      (''user_misery_500'', Num (Fin 20))] = Some ''user_misery_300'' \<and>
   userMiseryField_of
     [(''count_unique_user'', Num (Fin 100)), (''user_misery_300'', Num (Fin 10)),
      (''user_misery_500'', Num (Fin 20))] = ''user_misery_500'' \<and>
   user_misery example_runtime
     (Some [(''count_unique_user'', Num (Fin 100)), (''user_misery_300'', Num (Fin 10)),
            (''user_misery_500'', Num (Fin 20))]) example_baggage =
     Inr (BarContainer
       [Tooltip
          (Tct misery_title
             [(''affectedUsers'', Num (Fin 20)),
              (''totalUsers'', Num (Fin 100)),
              (''miseryPercentage'', Str ''20.00''),
              (''duration'', Num (Fin 2000))])
          False ''block''
          [ScoreBar 20 (Fin 2) (replicate 10 purpleDarkest) 0]])"
proof (intro conjI)
  show "first_misery_field
     [(''count_unique_user'', Num (Fin 100)), (''user_misery_300'', Num (Fin 10)),
      (''user_misery_500'', Num (Fin 20))] = Some ''user_misery_300''"
    by (simp add: first_misery_field_def startsWith_def)
  show "userMiseryField_of
     [(''count_unique_user'', Num (Fin 100)), (''user_misery_300'', Num (Fin 10)),
      (''user_misery_500'', Num (Fin 20))] = ''user_misery_500''"
    by (simp add: userMiseryField_of_def startsWith_def)
  show "user_misery example_runtime
     (Some [(''count_unique_user'', Num (Fin 100)), (''user_misery_300'', Num (Fin 10)),
            (''user_misery_500'', Num (Fin 20))]) example_baggage =
     Inr (BarContainer
       [Tooltip
          (Tct misery_title
             [(''affectedUsers'', Num (Fin 20)),
              (''totalUsers'', Num (Fin 100)),
              (''miseryPercentage'', Str ''20.00''),
              (''duration'', Num (Fin 2000))])
          False ''block''
          [ScoreBar 20 (Fin 2) (replicate 10 purpleDarkest) 0]])"
    by (simp add: user_misery_cell example_fields_300_500 own_def misery_cell_def
        score_20_of_100 quotient_20_of_100 misery_limit_500 duration_500 toFixed_20
        del: jmul.simps jdiv.simps Math_max.simps)
qed

section \<open>The misery score and the tooltip\<close>

lemma digit_chars:
  assumes "d < 10"
  shows "is_digit (''0123456789'' ! d)"
    and "(of_char (''0123456789'' ! d) :: int) - 48 = int d"
    and "\<not> is_space (''0123456789'' ! d)"
    and "''0123456789'' ! d \<noteq> CHR ''-''"
    and "''0123456789'' ! d \<noteq> CHR ''+''"
    and "''0123456789'' ! d \<noteq> CHR ''_''"
proof -
  from assms have "d \<in> {0, 1, 2, 3, 4, 5, 6, 7, 8, 9}" by auto
  then show "is_digit (''0123456789'' ! d)"
    and "(of_char (''0123456789'' ! d) :: int) - 48 = int d"
    and "\<not> is_space (''0123456789'' ! d)"
    and "''0123456789'' ! d \<noteq> CHR ''-''"
    and "''0123456789'' ! d \<noteq> CHR ''+''"
    and "''0123456789'' ! d \<noteq> CHR ''_''"
    by (auto simp: is_digit_def is_space_def)
qed

lemma dec_digits_nonempty: "dec_digits n \<noteq> []"
  by (subst dec_digits.simps) simp

lemma dec_digits_digits: "c \<in> set (dec_digits n) \<Longrightarrow> is_digit c \<and> c \<noteq> CHR ''_''"
proof (induction n rule: dec_digits.induct)
  case (1 n)
  show ?case
  proof (cases "n < 10")
    case True
    then have "nat n < 10" by simp
    with True "1.prems" show ?thesis
      by (subst (asm) dec_digits.simps) (simp add: digit_chars)
  next
    case False
    then have "nat (n mod 10) < 10" by simp
    with False "1.prems" "1.IH" show ?thesis
      by (subst (asm) dec_digits.simps) (auto simp: digit_chars)
  qed
qed

lemma digits_value_snoc:
  "digits_value (ds @ [c]) = 10 * digits_value ds + (of_char c - 48)"
  by (simp add: digits_value_def)

lemma digits_value_dec_digits: "0 \<le> n \<Longrightarrow> digits_value (dec_digits n) = n"
proof (induction n rule: dec_digits.induct)
  case (1 n)
  show ?case
  proof (cases "n < 10")
    case True
    with "1.prems" have d: "nat n < 10" and i: "int (nat n) = n" by simp_all
    have "dec_digits n = [''0123456789'' ! nat n]"
      using True by (simp add: dec_digits.simps [of n])
    then show ?thesis
      using digit_chars(2) [OF d] i by (simp add: digits_value_def)
  next
    case False
    with "1.prems" have d: "nat (n mod 10) < 10" and i: "int (nat (n mod 10)) = n mod 10"
      and p: "0 \<le> n div 10"
      by simp_all
    have "dec_digits n = dec_digits (n div 10) @ [''0123456789'' ! nat (n mod 10)]"
      using False by (simp add: dec_digits.simps [of n])
    moreover have "digits_value (dec_digits (n div 10)) = n div 10"
      using False p by (rule "1.IH")
    ultimately show ?thesis
      using digit_chars(2) [OF d] i by (simp add: digits_value_snoc)
  qed
qed

lemma hd_dec_digits:
  "\<not> is_space (hd (dec_digits n)) \<and> hd (dec_digits n) \<noteq> CHR ''-'' \<and>
   hd (dec_digits n) \<noteq> CHR ''+''"
proof (induction n rule: dec_digits.induct)
  case (1 n)
  show ?case
  proof (cases "n < 10")
    case True
    then have "nat n < 10" by simp
    with True show ?thesis
      by (subst (1 2 3) dec_digits.simps) (simp add: digit_chars)
  next
    case False
    with "1.IH" show ?thesis
      by (subst (1 2 3) dec_digits.simps) (simp add: dec_digits_nonempty)
  qed
qed

text \<open>\<open>parseInt\<close> reads a decimal numeral back, rounded to a double.\<close>

lemma parseInt10_dec_digits:
  assumes "0 \<le> n"
  shows "parseInt10 (dec_digits n) = round_double (of_int n)"
proof -
  obtain c cs where ds: "dec_digits n = c # cs"
    using dec_digits_nonempty [of n] by (cases "dec_digits n") auto
  from hd_dec_digits [of n] ds have c: "\<not> is_space c" "c \<noteq> CHR ''-''" "c \<noteq> CHR ''+''"
    by simp_all
  have "\<forall>x \<in> set (c # cs). is_digit x" using dec_digits_digits [of _ n] ds by auto
  then have tw: "takeWhile is_digit (c # cs) = c # cs" by (simp add: takeWhile_eq_all_conv)
  have dv: "digits_value (c # cs) = n" using digits_value_dec_digits [OF assms] ds by simp
  show ?thesis
    by (simp add: parseInt10_def ds Let_def c tw dv del: takeWhile.simps)
qed

lemma split_on_nonempty: "split_on c xs \<noteq> []"
  by (induction xs) (auto split: list.splits)

lemma split_on_no_sep: "c \<notin> set xs \<Longrightarrow> split_on c xs = [xs]"
  by (induction xs) auto

lemma split_on_append:
  "split_on c (xs @ c # ys) = split_on c xs @ split_on c ys"
  by (induction xs) (auto simp: split_on_nonempty split: list.splits)

lemma last_segment_numeral:
  "last (split_on CHR ''_'' (pre @ ''_'' @ dec_digits k)) = dec_digits k"
proof -
  have "CHR ''_'' \<notin> set (dec_digits k)" using dec_digits_digits by blast
  then have "split_on CHR ''_'' (dec_digits k) = [dec_digits k]" by (rule split_on_no_sep)
  then show ?thesis by (simp add: split_on_append)
qed

lemma misery_limit_eq:
  "misery_limit userMiseryField = parseInt10 (last (split_on CHR ''_'' userMiseryField))"
  by (simp add: misery_limit_def Let_def)

text \<open>
  The limit of a name that ends in an underscore and the decimal numeral of \<open>k\<close> is the
  double nearest to \<open>k\<close>; below \<open>2 ^ 53\<close> that is \<open>k\<close> itself, and so is 4 times it.
\<close>

lemma limit_of_numeral:
  "parseInt10 (last (split_on CHR ''_'' (pre @ ''_'' @ dec_digits (int k)))) =
     round_double (of_nat k)"
proof -
  have "parseInt10 (dec_digits (int k)) = round_double (of_int (int k))"
    by (rule parseInt10_dec_digits) simp
  then show ?thesis by (simp only: last_segment_numeral of_int_of_nat_eq)
qed

lemma duration_of_numeral:
  assumes "k < 2 ^ 53"
  shows "jmul (Fin 4) (parseInt10 (last (split_on CHR ''_'' (pre @ ''_'' @ dec_digits (int k))))) =
     Fin (4 * of_nat k)"
proof -
  have "round_double (of_nat k) = Fin (of_nat k)" using assms by (rule round_double_nat)
  moreover have "round_double (4 * of_nat k) = Fin (4 * of_nat k)"
    using assms by (rule round_double_four_times)
  ultimately show ?thesis by (simp only: limit_of_numeral jmul.simps)
qed

lemma misery_cell_bar:
  assumes "truthy uniqueUsers \<or> strict_eq uniqueUsers (Num (Fin 0))"
  shows "misery_cell rt uniqueUsers userMiseryField userMisery =
     (if unconvertible uniqueUsers \<or> unconvertible userMisery then Inl TypeError
      else Inr (BarContainer
       [Tooltip
          (Tct misery_title
             [(''affectedUsers'', userMisery),
              (''totalUsers'', uniqueUsers),
              (''miseryPercentage'',
                 Str (toFixed rt
                        (jdiv (jmul (Fin 100) (to_number rt userMisery))
                              (Math_max (to_number rt uniqueUsers) (Fin 1)))
                        2)),
              (''duration'',
                 Num (jmul (Fin 4) (parseInt10 (last (split_on CHR ''_'' userMiseryField)))))])
          False ''block''
          [ScoreBar 20
             (Math_floor
                (jmul (jdiv (to_number rt userMisery)
                            (Math_max (to_number rt uniqueUsers) (Fin 1)))
                      (Fin 10)))
             (replicate 10 purpleDarkest) 0]]))"
proof (cases "unconvertible uniqueUsers")
  case True
  with assms show ?thesis by (auto simp: misery_cell_def)
next
  case False
  with assms show ?thesis
    by (cases "unconvertible userMisery")
      (auto simp: misery_cell_def misery_score_def misery_limit_eq Let_def
        simp del: jmul.simps jdiv.simps Math_max.simps Math_floor.simps)
qed

lemma misery_cell_float:
  assumes "\<not> truthy uniqueUsers" and "\<not> strict_eq uniqueUsers (Num (Fin 0))"
  shows "misery_cell rt uniqueUsers userMiseryField userMisery =
     Inr (NumberContainer [case userMisery of Num n \<Rightarrow> FormatFloat n 4 | _ \<Rightarrow> emptyValue])"
  using assms by (simp add: misery_cell_def)

text \<open>
  C3. When the count of unique users is present (truthy, or \<open>0\<close>), the \<open>user_misery\<close>
  renderer draws the score bar with the score
  \<open>floor((miseryValue / max(uniqueUsers, 1)) * 10)\<close>, the division and the product being
  those of doubles, and the duration of the tooltip is 4 times the integer parsed from what
  follows the last underscore of the name of the misery field; the one other outcome is
  the \<open>TypeError\<close> of a count or misery value that does not convert to a number. A name
  that ends in an underscore and a decimal numeral \<open>k\<close> has the double nearest to \<open>k\<close> as
  its limit, and below \<open>2 ^ 53\<close> the duration is \<open>4 * k\<close> exactly.
\<close>

theorem user_misery_score_bar:
  assumes "misery_fields row \<noteq> []"
    and "userMiseryField = last (misery_fields row)"
    and "userMisery = own row userMiseryField"
    and "uniqueUsers = own row ''count_unique_user''"
    and "truthy uniqueUsers \<or> strict_eq uniqueUsers (Num (Fin 0))"
  shows "user_misery rt (Some row) baggage =
     (if unconvertible uniqueUsers \<or> unconvertible userMisery then Inl TypeError
      else Inr (BarContainer
       [Tooltip
          (Tct misery_title
             [(''affectedUsers'', userMisery),
              (''totalUsers'', uniqueUsers),
              (''miseryPercentage'',
                 Str (toFixed rt
                        (jdiv (jmul (Fin 100) (to_number rt userMisery))
                              (Math_max (to_number rt uniqueUsers) (Fin 1)))
                        2)),
              (''duration'',
                 Num (jmul (Fin 4) (parseInt10 (last (split_on CHR ''_'' userMiseryField)))))])
          False ''block''
          [ScoreBar 20
             (Math_floor
                (jmul (jdiv (to_number rt userMisery)
                            (Math_max (to_number rt uniqueUsers) (Fin 1)))
                      (Fin 10)))
             (replicate 10 purpleDarkest) 0]])) \<and>
   parseInt10 (last (split_on CHR ''_'' (pre @ ''_'' @ dec_digits (int k)))) =
     round_double (of_nat k) \<and>
   (k < 2 ^ 53 \<longrightarrow>
      jmul (Fin 4) (parseInt10 (last (split_on CHR ''_'' (pre @ ''_'' @ dec_digits (int k))))) =
        Fin (4 * of_nat k))"
proof (intro conjI impI)
  show "user_misery rt (Some row) baggage =
     (if unconvertible uniqueUsers \<or> unconvertible userMisery then Inl TypeError
      else Inr (BarContainer
       [Tooltip
          (Tct misery_title
             [(''affectedUsers'', userMisery),
              (''totalUsers'', uniqueUsers),
              (''miseryPercentage'',
                 Str (toFixed rt
                        (jdiv (jmul (Fin 100) (to_number rt userMisery))
                              (Math_max (to_number rt uniqueUsers) (Fin 1)))
                        2)),
              (''duration'',
                 Num (jmul (Fin 4) (parseInt10 (last (split_on CHR ''_'' userMiseryField)))))])
          False ''block''
          [ScoreBar 20
             (Math_floor
                (jmul (jdiv (to_number rt userMisery)
                            (Math_max (to_number rt uniqueUsers) (Fin 1)))
                      (Fin 10)))
             (replicate 10 purpleDarkest) 0]]))"
  proof -
    have "user_misery rt (Some row) baggage =
        misery_cell rt uniqueUsers userMiseryField userMisery"
      unfolding assms(2-4) using assms(1) by (rule user_misery_cell)
    then show ?thesis
      by (simp only: misery_cell_bar [OF assms(5)])
  qed
  show "parseInt10 (last (split_on CHR ''_'' (pre @ ''_'' @ dec_digits (int k)))) =
     round_double (of_nat k)"
    by (rule limit_of_numeral)
  assume "k < 2 ^ 53"
  then show "jmul (Fin 4)
      (parseInt10 (last (split_on CHR ''_'' (pre @ ''_'' @ dec_digits (int k))))) =
     Fin (4 * of_nat k)"
    by (rule duration_of_numeral)
qed

lemma example_fields_300:
  "misery_fields [(''count_unique_user'', u), (''user_misery_300'', m)] =
     [''user_misery_300'']"
  by (simp add: misery_fields_def startsWith_def)

lemma dec_digits_300: "dec_digits 300 = ''300''"
  by code_simp

lemma parseInt10_300: "parseInt10 ''300'' = Fin 300"
  by (simp add: parseInt10_def is_space_def is_digit_def digits_value_def double_300)

lemma last_segment_300: "last (split_on CHR ''_'' ''user_misery_300'') = ''300''"
  by simp

text \<open>
  The row of the claim, \<open>{count_unique_user: 100, user_misery_300: 10}\<close>; a misery of
  \<open>0.7\<close> with one user, where the product \<open>0.7 * 10\<close> of doubles is \<open>7\<close>; and 3 of 4000
  users, where the percentage \<open>300 / 4000\<close> is a double below \<open>0.075\<close> and prints as
  \<open>0.07\<close>.
\<close>

theorem user_misery_score_bar_witness:
  "user_misery example_runtime
     (Some [(''count_unique_user'', Num (Fin 100)), (''user_misery_300'', Num (Fin 10))])
     example_baggage =
     Inr (BarContainer
       [Tooltip
          (Tct misery_title
             [(''affectedUsers'', Num (Fin 10)),
              (''totalUsers'', Num (Fin 100)),
              (''miseryPercentage'', Str ''10.00''),
              (''duration'', Num (Fin 1200))])
          False ''block''
          [ScoreBar 20 (Fin 1) (replicate 10 purpleDarkest) 0]]) \<and>
   user_misery example_runtime
     (Some [(''count_unique_user'', Num (Fin 1)),
            (''user_misery_300'', Num (Fin (3152519739159347 / 4503599627370496)))])
     example_baggage =
     Inr (BarContainer
       [Tooltip
          (Tct misery_title
             [(''affectedUsers'', Num (Fin (3152519739159347 / 4503599627370496))),
              (''totalUsers'', Num (Fin 1)),
              (''miseryPercentage'', Str ''70.00''),
              (''duration'', Num (Fin 1200))])
          False ''block''
          [ScoreBar 20 (Fin 7) (replicate 10 purpleDarkest) 0]]) \<and>
   user_misery example_runtime
     (Some [(''count_unique_user'', Num (Fin 4000)), (''user_misery_300'', Num (Fin 3))])
     example_baggage =
     Inr (BarContainer
       [Tooltip
          (Tct misery_title
             [(''affectedUsers'', Num (Fin 3)),
              (''totalUsers'', Num (Fin 4000)),
              (''miseryPercentage'', Str ''0.07''),
              (''duration'', Num (Fin 1200))])
          False ''block''
          [ScoreBar 20 (Fin 0) (replicate 10 purpleDarkest) 0]]) \<and>
   user_misery example_runtime
     (Some [(''count_unique_user'', Num (Fin 100)),
            (''user_misery_300'', Obj [(''toString'', Null)])])
     example_baggage = Inl TypeError \<and>
   jmul (Fin 4) (parseInt10 (last (split_on CHR ''_'' ''user_misery_300''))) = Fin 1200"
proof (intro conjI)
  have bar: "user_misery example_runtime
       (Some [(''count_unique_user'', Num (Fin u)), (''user_misery_300'', m)])
       example_baggage =
     (if unconvertible (Num (Fin u)) \<or> unconvertible m then Inl TypeError
      else Inr (BarContainer
       [Tooltip
          (Tct misery_title
             [(''affectedUsers'', m),
              (''totalUsers'', Num (Fin u)),
              (''miseryPercentage'',
                 Str (toFixed example_runtime
                        (jdiv (jmul (Fin 100) (to_number example_runtime m))
                              (Math_max (to_number example_runtime (Num (Fin u))) (Fin 1)))
                        2)),
              (''duration'',
                 Num (jmul (Fin 4)
                        (parseInt10 (last (split_on CHR ''_'' ''user_misery_300'')))))])
          False ''block''
          [ScoreBar 20
             (Math_floor
                (jmul (jdiv (to_number example_runtime m)
                            (Math_max (to_number example_runtime (Num (Fin u))) (Fin 1)))
                      (Fin 10)))
             (replicate 10 purpleDarkest) 0]]))"
    if "u \<noteq> 0" for u m
  proof -
    have f: "misery_fields [(''count_unique_user'', Num (Fin u)), (''user_misery_300'', m)] \<noteq> []"
      by (simp add: example_fields_300)
    have l: "''user_misery_300'' = last (misery_fields
        [(''count_unique_user'', Num (Fin u)), (''user_misery_300'', m)])"
      by (simp add: example_fields_300)
    have m: "m = own [(''count_unique_user'', Num (Fin u)), (''user_misery_300'', m)]
          ''user_misery_300''"
      by (simp add: own_def)
    have u: "Num (Fin u) =
        own [(''count_unique_user'', Num (Fin u)), (''user_misery_300'', m)]
          ''count_unique_user''"
      by (simp add: own_def)
    have t: "truthy (Num (Fin u)) \<or> strict_eq (Num (Fin u)) (Num (Fin 0))"
      using that by simp
    show ?thesis
      by (rule user_misery_score_bar [OF f l m u t, THEN conjunct1])
  qed
  show "user_misery example_runtime
     (Some [(''count_unique_user'', Num (Fin 100)), (''user_misery_300'', Num (Fin 10))])
     example_baggage =
     Inr (BarContainer
       [Tooltip
          (Tct misery_title
             [(''affectedUsers'', Num (Fin 10)),
              (''totalUsers'', Num (Fin 100)),
              (''miseryPercentage'', Str ''10.00''),
              (''duration'', Num (Fin 1200))])
          False ''block''
          [ScoreBar 20 (Fin 1) (replicate 10 purpleDarkest) 0]])"
    using bar [of 100 "Num (Fin 10)"] score_10_of_100 quotient_10_of_100
    by (simp add: misery_score_def last_segment_300 parseInt10_300 duration_300 toFixed_10
        del: jmul.simps jdiv.simps Math_max.simps Math_floor.simps split_on.simps)
  show "user_misery example_runtime
     (Some [(''count_unique_user'', Num (Fin 1)),
            (''user_misery_300'', Num (Fin (3152519739159347 / 4503599627370496)))])
     example_baggage =
     Inr (BarContainer
       [Tooltip
          (Tct misery_title
             [(''affectedUsers'', Num (Fin (3152519739159347 / 4503599627370496))),
              (''totalUsers'', Num (Fin 1)),
              (''miseryPercentage'', Str ''70.00''),
              (''duration'', Num (Fin 1200))])
          False ''block''
          [ScoreBar 20 (Fin 7) (replicate 10 purpleDarkest) 0]])"
    using bar [of 1 "Num (Fin (3152519739159347 / 4503599627370496))"]
      score_d07_of_1 quotient_d07_of_1
    by (simp add: misery_score_def last_segment_300 parseInt10_300 duration_300 toFixed_70
        del: jmul.simps jdiv.simps Math_max.simps Math_floor.simps split_on.simps)
  show "user_misery example_runtime
     (Some [(''count_unique_user'', Num (Fin 4000)), (''user_misery_300'', Num (Fin 3))])
     example_baggage =
     Inr (BarContainer
       [Tooltip
          (Tct misery_title
             [(''affectedUsers'', Num (Fin 3)),
              (''totalUsers'', Num (Fin 4000)),
              (''miseryPercentage'', Str ''0.07''),
              (''duration'', Num (Fin 1200))])
          False ''block''
          [ScoreBar 20 (Fin 0) (replicate 10 purpleDarkest) 0]])"
    using bar [of 4000 "Num (Fin 3)"] score_3_of_4000 quotient_3_of_4000
    by (simp add: misery_score_def last_segment_300 parseInt10_300 duration_300
        toFixed_5404319552844595_72057594037927936
        del: jmul.simps jdiv.simps Math_max.simps Math_floor.simps split_on.simps)
  show "user_misery example_runtime
     (Some [(''count_unique_user'', Num (Fin 100)),
            (''user_misery_300'', Obj [(''toString'', Null)])])
     example_baggage = Inl TypeError"
    using bar [of 100 "Obj [(''toString'', Null)]"] by simp
  show "jmul (Fin 4) (parseInt10 (last (split_on CHR ''_'' ''user_misery_300''))) = Fin 1200"
    using user_misery_score_bar
        [where row = "[(''count_unique_user'', Num (Fin 100)), (''user_misery_300'', Num (Fin 10))]"
           and k = 300 and pre = "''user_misery''" and rt = example_runtime
           and baggage = example_baggage,
         OF _ refl refl refl, THEN conjunct2, THEN conjunct2]
    by (simp add: example_fields_300 own_def dec_digits_300
        del: jmul.simps split_on.simps)
qed

text \<open>
  C9. With a misery field in the row and \<open>count_unique_user\<close> equal to \<open>0\<close>, the renderer
  draws the score bar, with \<open>max(0, 1) = 1\<close> as the divisor, unless the misery value does
  not convert to a number, which is a \<open>TypeError\<close>; the formatted number is what it returns
  when the count is absent or \<open>null\<close>, and it returns it only when the count is falsy and is
  not \<open>0\<close>.
\<close>

theorem user_misery_zero_users:
  assumes "misery_fields row \<noteq> []"
    and "userMiseryField = last (misery_fields row)"
    and "userMisery = own row userMiseryField"
  shows "(own row ''count_unique_user'' = Num (Fin 0) \<longrightarrow>
      user_misery rt (Some row) baggage =
        (if unconvertible userMisery then Inl TypeError
         else Inr (BarContainer
          [Tooltip
             (Tct misery_title
                [(''affectedUsers'', userMisery),
                 (''totalUsers'', Num (Fin 0)),
                 (''miseryPercentage'',
                    Str (toFixed rt (jdiv (jmul (Fin 100) (to_number rt userMisery)) (Fin 1)) 2)),
                 (''duration'',
                    Num (jmul (Fin 4)
                           (parseInt10 (last (split_on CHR ''_'' userMiseryField)))))])
             False ''block''
             [ScoreBar 20
                (Math_floor (jmul (jdiv (to_number rt userMisery) (Fin 1)) (Fin 10)))
                (replicate 10 purpleDarkest) 0]]))) \<and>
   Math_max (Fin 0) (Fin 1) = Fin 1 \<and>
   (map_of row ''count_unique_user'' = None \<or> own row ''count_unique_user'' = Null \<longrightarrow>
      user_misery rt (Some row) baggage =
        Inr (NumberContainer
          [case userMisery of Num n \<Rightarrow> FormatFloat n 4 | _ \<Rightarrow> emptyValue])) \<and>
   (user_misery rt (Some row) baggage =
      Inr (NumberContainer
        [case userMisery of Num n \<Rightarrow> FormatFloat n 4 | _ \<Rightarrow> emptyValue]) \<longleftrightarrow>
    \<not> truthy (own row ''count_unique_user'') \<and>
    \<not> strict_eq (own row ''count_unique_user'') (Num (Fin 0)))"
proof (intro conjI impI)
  assume z: "own row ''count_unique_user'' = Num (Fin 0)"
  have cell: "user_misery rt (Some row) baggage =
      misery_cell rt (Num (Fin 0)) userMiseryField userMisery"
    unfolding assms(2-3) z [symmetric] using assms(1) by (rule user_misery_cell)
  have bar: "truthy (Num (Fin 0)) \<or> strict_eq (Num (Fin 0)) (Num (Fin 0))" by simp
  have one: "Math_max (to_number rt (Num (Fin 0))) (Fin 1) = Fin 1" by simp
  have conv: "(unconvertible (Num (Fin 0)) \<or> unconvertible userMisery) =
      unconvertible userMisery"
    by simp
  show "user_misery rt (Some row) baggage =
        (if unconvertible userMisery then Inl TypeError
         else Inr (BarContainer
          [Tooltip
             (Tct misery_title
                [(''affectedUsers'', userMisery),
                 (''totalUsers'', Num (Fin 0)),
                 (''miseryPercentage'',
                    Str (toFixed rt (jdiv (jmul (Fin 100) (to_number rt userMisery)) (Fin 1)) 2)),
                 (''duration'',
                    Num (jmul (Fin 4)
                           (parseInt10 (last (split_on CHR ''_'' userMiseryField)))))])
             False ''block''
             [ScoreBar 20
                (Math_floor (jmul (jdiv (to_number rt userMisery) (Fin 1)) (Fin 10)))
                (replicate 10 purpleDarkest) 0]]))"
    by (simp only: cell misery_cell_bar [OF bar] one conv)
next
  show "Math_max (Fin 0) (Fin 1) = Fin 1" by simp
next
  assume "map_of row ''count_unique_user'' = None \<or> own row ''count_unique_user'' = Null"
  then have "own row ''count_unique_user'' = Undefined \<or> own row ''count_unique_user'' = Null"
    by (auto simp: own_def)
  then have "\<not> truthy (own row ''count_unique_user'')"
    and "\<not> strict_eq (own row ''count_unique_user'') (Num (Fin 0))"
    by auto
  then have float: "misery_cell rt (own row ''count_unique_user'') userMiseryField userMisery =
      Inr (NumberContainer
        [case userMisery of Num n \<Rightarrow> FormatFloat n 4 | _ \<Rightarrow> emptyValue])"
    by (rule misery_cell_float)
  have "user_misery rt (Some row) baggage =
      misery_cell rt (own row ''count_unique_user'') userMiseryField userMisery"
    unfolding assms(2-3) using assms(1) by (rule user_misery_cell)
  then show "user_misery rt (Some row) baggage =
        Inr (NumberContainer
          [case userMisery of Num n \<Rightarrow> FormatFloat n 4 | _ \<Rightarrow> emptyValue])"
    by (simp only: float)
next
  have cell: "user_misery rt (Some row) baggage =
      misery_cell rt (own row ''count_unique_user'') userMiseryField userMisery"
    unfolding assms(2-3) using assms(1) by (rule user_misery_cell)
  show "user_misery rt (Some row) baggage =
      Inr (NumberContainer
        [case userMisery of Num n \<Rightarrow> FormatFloat n 4 | _ \<Rightarrow> emptyValue]) \<longleftrightarrow>
    \<not> truthy (own row ''count_unique_user'') \<and>
    \<not> strict_eq (own row ''count_unique_user'') (Num (Fin 0))"
  proof (cases "\<not> truthy (own row ''count_unique_user'') \<and>
      \<not> strict_eq (own row ''count_unique_user'') (Num (Fin 0))")
    case True
    then have "misery_cell rt (own row ''count_unique_user'') userMiseryField userMisery =
        Inr (NumberContainer
          [case userMisery of Num n \<Rightarrow> FormatFloat n 4 | _ \<Rightarrow> emptyValue])"
      by (simp add: misery_cell_float)
    with cell True show ?thesis by simp
  next
    case False
    then have "truthy (own row ''count_unique_user'') \<or>
        strict_eq (own row ''count_unique_user'') (Num (Fin 0))"
      by blast
    then have "misery_cell rt (own row ''count_unique_user'') userMiseryField userMisery =
          Inl TypeError \<or>
        (\<exists>title score. misery_cell rt (own row ''count_unique_user'') userMiseryField
          userMisery = Inr (BarContainer [Tooltip title False ''block''
            [ScoreBar 20 score (replicate 10 purpleDarkest) 0]]))"
      by (simp add: misery_cell_bar del: jmul.simps jdiv.simps Math_max.simps Math_floor.simps)
    then have "misery_cell rt (own row ''count_unique_user'') userMiseryField userMisery \<noteq>
        Inr (NumberContainer
          [case userMisery of Num n \<Rightarrow> FormatFloat n 4 | _ \<Rightarrow> emptyValue])"
      by auto
    with cell False show ?thesis by simp
  qed
qed

lemma dec_digits_100000: "dec_digits 100000 = ''100000''"
  by code_simp

lemma toFixed_1000: "toFixed rt (Fin 1000) 2 = ''1000.00''"
proof -
  have n: "\<lfloor>\<bar>1000::rat\<bar> * 10 ^ 2 + 1 / 2\<rfloor> = 100000"
    by (simp add: floor_eq_iff)
  show ?thesis
    by (simp only: toFixed_def jsnum.case Let_def n dec_digits_100000) simp
qed

lemma example_fields_300_only:
  "misery_fields [(''user_misery_300'', Num (Fin 10))] = [''user_misery_300'']"
  by (simp add: misery_fields_def startsWith_def)

theorem user_misery_zero_users_witness:
  "misery_fields
     [(''count_unique_user'', Num (Fin 0)), (''user_misery_300'', Num (Fin 10))] \<noteq> [] \<and>
   user_misery example_runtime
     (Some [(''count_unique_user'', Num (Fin 0)), (''user_misery_300'', Num (Fin 10))])
     example_baggage =
     Inr (BarContainer
       [Tooltip
          (Tct misery_title
             [(''affectedUsers'', Num (Fin 10)),
              (''totalUsers'', Num (Fin 0)),
              (''miseryPercentage'', Str ''1000.00''),
              (''duration'', Num (Fin 1200))])
          False ''block''
          [ScoreBar 20 (Fin 100) (replicate 10 purpleDarkest) 0]]) \<and>
   user_misery example_runtime (Some [(''user_misery_300'', Num (Fin 10))]) example_baggage =
     Inr (NumberContainer [FormatFloat (Fin 10) 4])"
proof (intro conjI)
  show f: "misery_fields
      [(''count_unique_user'', Num (Fin 0)), (''user_misery_300'', Num (Fin 10))] \<noteq> []"
    by (simp add: example_fields_300)
  have l: "''user_misery_300'' = last (misery_fields
      [(''count_unique_user'', Num (Fin 0)), (''user_misery_300'', Num (Fin 10))])"
    by (simp add: example_fields_300)
  have m: "Num (Fin 10) =
      own [(''count_unique_user'', Num (Fin 0)), (''user_misery_300'', Num (Fin 10))]
        ''user_misery_300''"
    by (simp add: own_def)
  have zero: "own [(''count_unique_user'', Num (Fin 0)), (''user_misery_300'', Num (Fin 10))]
      ''count_unique_user'' = Num (Fin 0)"
    by (simp add: own_def)
  have percentage: "toFixed example_runtime
      (jdiv (jmul (Fin 100) (to_number example_runtime (Num (Fin 10)))) (Fin 1)) 2 =
      ''1000.00''"
    using quotient_10_of_0 by (simp add: toFixed_1000 del: jmul.simps jdiv.simps)
  have duration: "jmul (Fin 4) (parseInt10 (last (split_on CHR ''_'' ''user_misery_300''))) =
      Fin 1200"
    by (simp only: last_segment_300 parseInt10_300 duration_300)
  have score: "Math_floor
      (jmul (jdiv (to_number example_runtime (Num (Fin 10))) (Fin 1)) (Fin 10)) = Fin 100"
    using score_10_of_0
    by (simp add: misery_score_def del: jmul.simps jdiv.simps Math_floor.simps)
  have convertible: "unconvertible (Num (Fin 10)) = False"
    by simp
  from user_misery_zero_users [OF f l m, of example_runtime example_baggage,
      THEN conjunct1, THEN mp, OF zero]
  have "user_misery example_runtime
      (Some [(''count_unique_user'', Num (Fin 0)), (''user_misery_300'', Num (Fin 10))])
      example_baggage =
      (if unconvertible (Num (Fin 10)) then Inl TypeError else
      Inr (BarContainer
        [Tooltip
           (Tct misery_title
              [(''affectedUsers'', Num (Fin 10)),
               (''totalUsers'', Num (Fin 0)),
               (''miseryPercentage'',
                  Str (toFixed example_runtime
                         (jdiv (jmul (Fin 100) (to_number example_runtime (Num (Fin 10))))
                               (Fin 1))
                         2)),
               (''duration'',
                  Num (jmul (Fin 4)
                         (parseInt10 (last (split_on CHR ''_'' ''user_misery_300'')))))])
           False ''block''
           [ScoreBar 20
              (Math_floor
                 (jmul (jdiv (to_number example_runtime (Num (Fin 10))) (Fin 1)) (Fin 10)))
              (replicate 10 purpleDarkest) 0]]))"
    .
  then show "user_misery example_runtime
      (Some [(''count_unique_user'', Num (Fin 0)), (''user_misery_300'', Num (Fin 10))])
      example_baggage =
      Inr (BarContainer
        [Tooltip
           (Tct misery_title
              [(''affectedUsers'', Num (Fin 10)),
               (''totalUsers'', Num (Fin 0)),
               (''miseryPercentage'', Str ''1000.00''),
               (''duration'', Num (Fin 1200))])
           False ''block''
           [ScoreBar 20 (Fin 100) (replicate 10 purpleDarkest) 0]])"
    by (simp only: percentage duration score convertible if_False)
next
  have f: "misery_fields [(''user_misery_300'', Num (Fin 10))] \<noteq> []"
    by (simp add: example_fields_300_only)
  have l: "''user_misery_300'' = last (misery_fields [(''user_misery_300'', Num (Fin 10))])"
    by (simp add: example_fields_300_only)
  have m: "Num (Fin 10) = own [(''user_misery_300'', Num (Fin 10))] ''user_misery_300''"
    by (simp add: own_def)
  have absent: "map_of [(''user_misery_300'', Num (Fin 10))] ''count_unique_user'' = None"
    by simp
  from user_misery_zero_users [OF f l m, of example_runtime example_baggage,
      THEN conjunct2, THEN conjunct2, THEN conjunct1, THEN mp, OF disjI1, OF absent]
  have "user_misery example_runtime (Some [(''user_misery_300'', Num (Fin 10))])
      example_baggage =
      Inr (NumberContainer
        [case Num (Fin 10) of Num n \<Rightarrow> FormatFloat n 4 | _ \<Rightarrow> emptyValue])"
    .
  then show "user_misery example_runtime (Some [(''user_misery_300'', Num (Fin 10))])
      example_baggage = Inr (NumberContainer [FormatFloat (Fin 10) 4])"
    by simp
qed

section \<open>What can fail on a row\<close>

lemma formatters_total:
  "(ty, formatter) \<in> set FIELD_FORMATTERS \<Longrightarrow>
     \<exists>n. renderFunc formatter field (Some row) baggage = Inr n"
  by (auto simp: FIELD_FORMATTERS_def string_formatter_def boolean_renderFunc_def
      date_renderFunc_def duration_renderFunc_def integer_renderFunc_def number_renderFunc_def
      percentage_renderFunc_def string_renderFunc_def Let_def)

lemma id_renderFunc_total: "\<exists>n. id_renderFunc (Some row) baggage = Inr n"
  by (simp add: id_renderFunc_def read_prop_opt_def split: jsval.splits)

lemma project_renderFunc_total: "\<exists>n. project_renderFunc (Some row) baggage = Inr n"
  by (simp add: project_renderFunc_def)

lemma user_renderFunc_total: "\<exists>n. user_renderFunc (Some row) baggage = Inr n"
  by (simp add: user_renderFunc_def Let_def)

lemma release_renderFunc_total: "\<exists>n. release_renderFunc (Some row) baggage = Inr n"
  by (simp add: release_renderFunc_def)

lemma issue_id_renderFunc_fails:
  "issue_id_renderFunc rt (Some row) baggage = Inl TypeError \<longleftrightarrow>
     unconvertible (own row ''issue.id'')"
  by (simp add: issue_id_renderFunc_result)

lemma issue_renderFunc_fails:
  "issue_renderFunc rt (Some row) baggage = Inl TypeError \<longleftrightarrow>
     unconvertible (own row ''issue.id'') \<or> unconvertible (own row ''issue'')"
proof (cases "truthy (own row ''issue.id'')")
  case True
  then show ?thesis by (simp add: issue_renderFunc_truthy)
next
  case False
  then have "\<not> unconvertible (own row ''issue.id'')"
    using unconvertible_truthy by blast
  with False show ?thesis by (simp add: issue_renderFunc_falsy)
qed

lemma user_misery_fails:
  "user_misery rt (Some row) baggage = Inl TypeError \<longleftrightarrow>
     misery_fields row \<noteq> [] \<and>
     (truthy (own row ''count_unique_user'') \<or>
      strict_eq (own row ''count_unique_user'') (Num (Fin 0))) \<and>
     (unconvertible (own row ''count_unique_user'') \<or>
      unconvertible (own row (last (misery_fields row))))"
proof (cases "misery_fields row = []")
  case True
  then show ?thesis by (simp add: user_misery_no_field)
next
  case False
  then have cell: "user_misery rt (Some row) baggage =
      misery_cell rt (own row ''count_unique_user'') (last (misery_fields row))
        (own row (last (misery_fields row)))"
    by (rule user_misery_cell)
  show ?thesis
  proof (cases "truthy (own row ''count_unique_user'') \<or>
      strict_eq (own row ''count_unique_user'') (Num (Fin 0))")
    case True
    with False show ?thesis
      by (simp only: cell misery_cell_bar [OF True]) simp
  next
    case no_count: False
    then have "misery_cell rt (own row ''count_unique_user'') (last (misery_fields row))
        (own row (last (misery_fields row))) =
      Inr (NumberContainer
        [case own row (last (misery_fields row)) of Num n \<Rightarrow> FormatFloat n 4
         | _ \<Rightarrow> emptyValue])"
      by (simp add: misery_cell_float)
    with no_count show ?thesis by (simp add: cell)
  qed
qed

lemma special_fields_renderers:
  "(k, special) \<in> set (SPECIAL_FIELDS rt) \<Longrightarrow>
     specialRenderFunc special = id_renderFunc \<or>
     specialRenderFunc special = issue_id_renderFunc rt \<or>
     specialRenderFunc special = issue_renderFunc rt \<or>
     specialRenderFunc special = project_renderFunc \<or>
     specialRenderFunc special = user_renderFunc \<or>
     specialRenderFunc special = release_renderFunc"
  by (auto simp: SPECIAL_FIELDS_def)

text \<open>The renderer that \<open>getFieldRenderer\<close> returns is always one of the three tables.\<close>

lemma getFieldRenderer_cases:
  "(\<exists>k special. (k, special) \<in> set (SPECIAL_FIELDS rt) \<and>
       getFieldRenderer getAggregateAlias rt field meta = specialRenderFunc special) \<or>
   (\<exists>p f. (p, f) \<in> set (SPECIAL_FUNCTIONS rt) \<and>
       getFieldRenderer getAggregateAlias rt field meta = f) \<or>
   (\<exists>ty formatter. (ty, formatter) \<in> set FIELD_FORMATTERS \<and>
       getFieldRenderer getAggregateAlias rt field meta =
         renderFunc formatter (getAggregateAlias field))"
proof (cases "map_of (SPECIAL_FIELDS rt) field")
  case (Some special)
  then have "(field, special) \<in> set (SPECIAL_FIELDS rt)" by (rule map_of_SomeD)
  moreover from Some have
    "getFieldRenderer getAggregateAlias rt field meta = specialRenderFunc special"
    by (simp add: getFieldRenderer_def)
  ultimately show ?thesis by blast
next
  case None
  show ?thesis
  proof (cases "startsWith (getAggregateAlias field) ''user_misery''")
    case True
    with None have "getFieldRenderer getAggregateAlias rt field meta = user_misery rt"
      by (simp add: getFieldRenderer_def SPECIAL_FUNCTIONS_def Let_def)
    moreover have "(''user_misery'', user_misery rt) \<in> set (SPECIAL_FUNCTIONS rt)"
      by (simp add: SPECIAL_FUNCTIONS_def)
    ultimately show ?thesis by blast
  next
    case False
    have s: "(''string'', string_formatter) \<in> set FIELD_FORMATTERS"
      by (simp add: FIELD_FORMATTERS_def)
    show ?thesis
    proof (cases "meta (getAggregateAlias field)")
      case no_type: None
      with None False have
        "getFieldRenderer getAggregateAlias rt field meta =
           renderFunc string_formatter (getAggregateAlias field)"
        by (simp add: getFieldRenderer_def SPECIAL_FUNCTIONS_def Let_def)
      with s show ?thesis by blast
    next
      case (Some ty)
      show ?thesis
      proof (cases "map_of FIELD_FORMATTERS ty")
        case unknown_type: None
        with None False Some have
          "getFieldRenderer getAggregateAlias rt field meta =
             renderFunc string_formatter (getAggregateAlias field)"
          by (simp add: getFieldRenderer_def SPECIAL_FUNCTIONS_def Let_def)
        with s show ?thesis by blast
      next
        case known_type: (Some formatter)
        then have "(ty, formatter) \<in> set FIELD_FORMATTERS" by (rule map_of_SomeD)
        moreover from None False Some known_type have
          "getFieldRenderer getAggregateAlias rt field meta =
             renderFunc formatter (getAggregateAlias field)"
          by (simp add: getFieldRenderer_def SPECIAL_FUNCTIONS_def Let_def)
        ultimately show ?thesis by blast
      qed
    qed
  qed
qed

lemma getFieldRenderer_fails:
  assumes "getFieldRenderer getAggregateAlias rt field meta (Some row) baggage = Inl e"
  shows "getFieldRenderer getAggregateAlias rt field meta = issue_id_renderFunc rt \<or>
     getFieldRenderer getAggregateAlias rt field meta = issue_renderFunc rt \<or>
     getFieldRenderer getAggregateAlias rt field meta = user_misery rt"
proof -
  consider
    (special_field) k special where "(k, special) \<in> set (SPECIAL_FIELDS rt)"
      and "getFieldRenderer getAggregateAlias rt field meta = specialRenderFunc special"
  | (special_function) p f where "(p, f) \<in> set (SPECIAL_FUNCTIONS rt)"
      and "getFieldRenderer getAggregateAlias rt field meta = f"
  | (formatter) ty formatter where "(ty, formatter) \<in> set FIELD_FORMATTERS"
      and "getFieldRenderer getAggregateAlias rt field meta =
        renderFunc formatter (getAggregateAlias field)"
    using getFieldRenderer_cases [of rt getAggregateAlias field meta] by blast
  then show ?thesis
  proof cases
    case special_field
    from special_fields_renderers [OF special_field(1)] special_field(2) assms
      id_renderFunc_total [of row baggage] project_renderFunc_total [of row baggage]
      user_renderFunc_total [of row baggage] release_renderFunc_total [of row baggage]
    show ?thesis by auto
  next
    case special_function
    then show ?thesis by (simp add: SPECIAL_FUNCTIONS_def)
  next
    case formatter
    with formatters_total [OF formatter(1), of "getAggregateAlias field" row baggage] assms
    show ?thesis by auto
  qed
qed

lemma getSortField_results:
  "getSortField AGGREGATIONS rt field tableMeta = None \<or>
   getSortField AGGREGATIONS rt field tableMeta = Some field \<or>
   getSortField AGGREGATIONS rt field tableMeta = Some ''user.id''"
proof (cases "map_of (SPECIAL_FIELDS rt) field")
  case (Some special)
  then have "getSortField AGGREGATIONS rt field tableMeta = sortField special"
    by (simp add: getSortField_def)
  moreover from Some have "(field, special) \<in> set (SPECIAL_FIELDS rt)" by (rule map_of_SomeD)
  then have "sortField special = None \<or> sortField special = Some field \<or>
      sortField special = Some ''user.id''"
    by (auto simp: SPECIAL_FIELDS_def)
  ultimately show ?thesis by simp
next
  case None
  then show ?thesis
    by (simp add: getSortField_def split: option.splits prod.splits)
qed

text \<open>
  C5, as amended. On every row: each of the formatters \<open>duration\<close>, \<open>integer\<close>, \<open>number\<close>
  and \<open>percentage\<close> returns the numeric container that holds the empty-value placeholder
  when the stored value is not a number; no formatter raises an exception, and none of the
  special fields \<open>id\<close>, \<open>project\<close>, \<open>user\<close> and \<open>release\<close> does. The renderers of \<open>issue.id\<close>
  and \<open>issue\<close> and the function \<open>user_misery\<close> raise a \<open>TypeError\<close> exactly when a value
  that they convert to a string or to a number does not convert: the field \<open>issue.id\<close>;
  one of the fields \<open>issue.id\<close> and \<open>issue\<close>; on the way to the score bar, the count of unique
  users or the misery value. The resolvers themselves do not fail: a renderer returned by
  \<open>getFieldRenderer\<close> fails only as one of these three, and \<open>getSortField\<close> returns \<open>null\<close>,
  the field, or the sort field \<open>user.id\<close>.
\<close>

theorem renderers_fail_converting:
  "(typeof (own row field) \<noteq> ''number'' \<longrightarrow>
      duration_renderFunc field (Some row) baggage = Inr (NumberContainer [emptyValue]) \<and>
      integer_renderFunc field (Some row) baggage = Inr (NumberContainer [emptyValue]) \<and>
      number_renderFunc field (Some row) baggage = Inr (NumberContainer [emptyValue]) \<and>
      percentage_renderFunc field (Some row) baggage = Inr (NumberContainer [emptyValue])) \<and>
   (\<forall>(ty, formatter) \<in> set FIELD_FORMATTERS.
      \<exists>n. renderFunc formatter field (Some row) baggage = Inr n) \<and>
   (\<exists>n. id_renderFunc (Some row) baggage = Inr n) \<and>
   (\<exists>n. project_renderFunc (Some row) baggage = Inr n) \<and>
   (\<exists>n. user_renderFunc (Some row) baggage = Inr n) \<and>
   (\<exists>n. release_renderFunc (Some row) baggage = Inr n) \<and>
   (issue_id_renderFunc rt (Some row) baggage = Inl TypeError \<longleftrightarrow>
      unconvertible (own row ''issue.id'')) \<and>
   (issue_renderFunc rt (Some row) baggage = Inl TypeError \<longleftrightarrow>
      unconvertible (own row ''issue.id'') \<or> unconvertible (own row ''issue'')) \<and>
   (user_misery rt (Some row) baggage = Inl TypeError \<longleftrightarrow>
      misery_fields row \<noteq> [] \<and>
      (truthy (own row ''count_unique_user'') \<or>
       strict_eq (own row ''count_unique_user'') (Num (Fin 0))) \<and>
      (unconvertible (own row ''count_unique_user'') \<or>
       unconvertible (own row (last (misery_fields row))))) \<and>
   (getFieldRenderer getAggregateAlias rt field meta (Some row) baggage = Inl e \<longrightarrow>
      e = TypeError \<and>
      (getFieldRenderer getAggregateAlias rt field meta = issue_id_renderFunc rt \<or>
       getFieldRenderer getAggregateAlias rt field meta = issue_renderFunc rt \<or>
       getFieldRenderer getAggregateAlias rt field meta = user_misery rt)) \<and>
   (getSortField AGGREGATIONS rt field tableMeta = None \<or>
    getSortField AGGREGATIONS rt field tableMeta = Some field \<or>
    getSortField AGGREGATIONS rt field tableMeta = Some ''user.id'')"
proof (intro conjI impI)
  assume t: "typeof (own row field) \<noteq> ''number''"
  show "duration_renderFunc field (Some row) baggage = Inr (NumberContainer [emptyValue])"
    using t by (rule numeric_placeholder)
  show "integer_renderFunc field (Some row) baggage = Inr (NumberContainer [emptyValue])"
    using t by (rule numeric_placeholder)
  show "number_renderFunc field (Some row) baggage = Inr (NumberContainer [emptyValue])"
    using t by (rule numeric_placeholder)
  show "percentage_renderFunc field (Some row) baggage = Inr (NumberContainer [emptyValue])"
    using t by (rule numeric_placeholder)
next
  show "\<forall>(ty, formatter) \<in> set FIELD_FORMATTERS.
      \<exists>n. renderFunc formatter field (Some row) baggage = Inr n"
    using formatters_total by blast
next
  show "\<exists>n. id_renderFunc (Some row) baggage = Inr n" by (rule id_renderFunc_total)
next
  show "\<exists>n. project_renderFunc (Some row) baggage = Inr n" by (rule project_renderFunc_total)
next
  show "\<exists>n. user_renderFunc (Some row) baggage = Inr n" by (rule user_renderFunc_total)
next
  show "\<exists>n. release_renderFunc (Some row) baggage = Inr n" by (rule release_renderFunc_total)
next
  show "issue_id_renderFunc rt (Some row) baggage = Inl TypeError \<longleftrightarrow>
      unconvertible (own row ''issue.id'')"
    by (rule issue_id_renderFunc_fails)
next
  show "issue_renderFunc rt (Some row) baggage = Inl TypeError \<longleftrightarrow>
      unconvertible (own row ''issue.id'') \<or> unconvertible (own row ''issue'')"
    by (rule issue_renderFunc_fails)
next
  show "user_misery rt (Some row) baggage = Inl TypeError \<longleftrightarrow>
      misery_fields row \<noteq> [] \<and>
      (truthy (own row ''count_unique_user'') \<or>
       strict_eq (own row ''count_unique_user'') (Num (Fin 0))) \<and>
      (unconvertible (own row ''count_unique_user'') \<or>
       unconvertible (own row (last (misery_fields row))))"
    by (rule user_misery_fails)
next
  show "e = TypeError" by (rule error_is_TypeError)
next
  assume "getFieldRenderer getAggregateAlias rt field meta (Some row) baggage = Inl e"
  then show "getFieldRenderer getAggregateAlias rt field meta = issue_id_renderFunc rt \<or>
      getFieldRenderer getAggregateAlias rt field meta = issue_renderFunc rt \<or>
      getFieldRenderer getAggregateAlias rt field meta = user_misery rt"
    by (rule getFieldRenderer_fails)
next
  show "getSortField AGGREGATIONS rt field tableMeta = None \<or>
    getSortField AGGREGATIONS rt field tableMeta = Some field \<or>
    getSortField AGGREGATIONS rt field tableMeta = Some ''user.id''"
    by (rule getSortField_results)
qed

text \<open>
  A row whose field \<open>count\<close> holds a string and whose field \<open>issue\<close> holds an object with
  the property \<open>toString\<close>: the numeric formatters return the placeholder, the \<open>issue.id\<close>
  renderer puts \<open>undefined\<close> in the link, and the \<open>issue\<close> renderer fails.
\<close>

theorem renderers_fail_converting_witness:
  "duration_renderFunc ''count''
     (Some [(''count'', Str ''many''), (''issue'', Obj [(''toString'', Null)])])
     example_baggage = Inr (NumberContainer [Span [T ''n/a'']]) \<and>
   integer_renderFunc ''count''
     (Some [(''count'', Str ''many''), (''issue'', Obj [(''toString'', Null)])])
     example_baggage = Inr (NumberContainer [Span [T ''n/a'']]) \<and>
   number_renderFunc ''count''
     (Some [(''count'', Str ''many''), (''issue'', Obj [(''toString'', Null)])])
     example_baggage = Inr (NumberContainer [Span [T ''n/a'']]) \<and>
   percentage_renderFunc ''count''
     (Some [(''count'', Str ''many''), (''issue'', Obj [(''toString'', Null)])])
     example_baggage = Inr (NumberContainer [Span [T ''n/a'']]) \<and>
   (\<exists>n. renderFunc string_formatter ''count''
      (Some [(''count'', Str ''many''), (''issue'', Obj [(''toString'', Null)])])
      example_baggage = Inr n) \<and>
   (\<exists>n. user_renderFunc
      (Some [(''count'', Str ''many''), (''issue'', Obj [(''toString'', Null)])])
      example_baggage = Inr n) \<and>
   issue_id_renderFunc example_runtime
     (Some [(''count'', Str ''many''), (''issue'', Obj [(''toString'', Null)])])
     example_baggage \<noteq> Inl TypeError \<and>
   issue_renderFunc example_runtime
     (Some [(''count'', Str ''many''), (''issue'', Obj [(''toString'', Null)])])
     example_baggage = Inl TypeError \<and>
   user_misery example_runtime
     (Some [(''count'', Str ''many''), (''issue'', Obj [(''toString'', Null)])])
     example_baggage \<noteq> Inl TypeError"
  using renderers_fail_converting
    [of "[(''count'', Str ''many''), (''issue'', Obj [(''toString'', Null)])]" "''count''"
      example_baggage example_runtime "\<lambda>field. field" "[''count'' \<mapsto> ''integer'']"
      TypeError "[]" None]
  by (simp add: own_def emptyValue_def FIELD_FORMATTERS_def misery_fields_def startsWith_def)

text \<open>
  C5, the claim as it stands, fails on a row whose field \<open>issue\<close> is an object with the
  property \<open>toString\<close> set to \<open>null\<close>: the template literal of the \<open>issue\<close> renderer cannot
  convert it to a string, so the renderer, which is the one that \<open>getFieldRenderer\<close>
  returns for the field \<open>issue\<close>, raises a \<open>TypeError\<close>.
\<close>

theorem issue_renderFunc_throws_counterexample:
  "issue_renderFunc example_runtime (Some [(''issue'', Obj [(''toString'', Null)])])
     example_baggage = Inl TypeError \<and>
   getFieldRenderer (\<lambda>field. field) example_runtime ''issue'' Map.empty
     (Some [(''issue'', Obj [(''toString'', Null)])]) example_baggage = Inl TypeError"
  by (simp add: issue_renderFunc_def getFieldRenderer_def SPECIAL_FIELDS_def own_def
      reading_def read_prop_def)

section \<open>The thread selector: dropdown entries\<close>

lemma sublist_in_middle: "sublist xs (ps @ xs @ ss)"
  by (auto simp: sublist_def)

lemma getDropDownItem_value:
  "item_value (getDropDownItem filterThreadInfo getThreadException rt event thread) =
     ''#'' @ to_string rt (thread_id thread) @ '': '' @ to_string rt (thread_name thread) @
     '' '' @ to_string rt (label (filterThreadInfo thread event)) @ '' '' @
     to_string rt (filename (filterThreadInfo thread event))"
  by (simp add: getDropDownItem_def Let_def)

lemma getDropDownItem_parts:
  "sublist (to_string rt (thread_id thread))
     (item_value (getDropDownItem filterThreadInfo getThreadException rt event thread))"
  "sublist (to_string rt (thread_name thread))
     (item_value (getDropDownItem filterThreadInfo getThreadException rt event thread))"
  "sublist (to_string rt (label (filterThreadInfo thread event)))
     (item_value (getDropDownItem filterThreadInfo getThreadException rt event thread))"
  "sublist (to_string rt (filename (filterThreadInfo thread event)))
     (item_value (getDropDownItem filterThreadInfo getThreadException rt event thread))"
proof -
  let ?i = "to_string rt (thread_id thread)"
  let ?n = "to_string rt (thread_name thread)"
  let ?l = "to_string rt (label (filterThreadInfo thread event))"
  let ?f = "to_string rt (filename (filterThreadInfo thread event))"
  let ?v = "item_value (getDropDownItem filterThreadInfo getThreadException rt event thread)"
  have "?v = ''#'' @ ?i @ ('': '' @ ?n @ '' '' @ ?l @ '' '' @ ?f)"
    by (simp add: getDropDownItem_value)
  then show "sublist ?i ?v" by (simp only: sublist_in_middle)
  have "?v = (''#'' @ ?i @ '': '') @ ?n @ ('' '' @ ?l @ '' '' @ ?f)"
    by (simp add: getDropDownItem_value)
  then show "sublist ?n ?v" by (simp only: sublist_in_middle)
  have "?v = (''#'' @ ?i @ '': '' @ ?n @ '' '') @ ?l @ ('' '' @ ?f)"
    by (simp add: getDropDownItem_value)
  then show "sublist ?l ?v" by (simp only: sublist_in_middle)
  have "?v = (''#'' @ ?i @ '': '' @ ?n @ '' '' @ ?l @ '' '') @ ?f @ []"
    by (simp add: getDropDownItem_value)
  then show "sublist ?f ?v" by (simp only: sublist_in_middle)
qed

lemma getDropDownItem_crashedInfo:
  "option_crashedInfo
     (item_label (getDropDownItem filterThreadInfo getThreadException rt event thread)) =
     (if truthy (crashed thread) then Some (getThreadException thread event) else None)"
  by (simp add: getDropDownItem_def Let_def)

lemma getDropDownItem_thread:
  "item_thread (getDropDownItem filterThreadInfo getThreadException rt event thread) = thread"
  "item_threadInfo (getDropDownItem filterThreadInfo getThreadException rt event thread) =
     filterThreadInfo thread event"
  by (simp_all add: getDropDownItem_def Let_def)

text \<open>
  C8. The selector builds one dropdown entry for each thread of the list, in order. The
  text of the entry, on which the dropdown filters, is made of the id and the name of the
  thread and of the label and the file name that \<open>filterThreadInfo\<close> computes for it, and so
  contains each of them; and the entry carries what \<open>getThreadException\<close> returns for the
  thread exactly when the thread's \<open>crashed\<close> flag is set, and nothing otherwise.
\<close>

theorem ThreadSelector_entries:
  "length (ThreadSelector_items filterThreadInfo getThreadException rt threads event) =
     length threads \<and>
   (\<forall>i < length threads.
      item_thread (ThreadSelector_items filterThreadInfo getThreadException rt threads event ! i) =
        threads ! i \<and>
      item_threadInfo
          (ThreadSelector_items filterThreadInfo getThreadException rt threads event ! i) =
        filterThreadInfo (threads ! i) event \<and>
      item_value (ThreadSelector_items filterThreadInfo getThreadException rt threads event ! i) =
        ''#'' @ to_string rt (thread_id (threads ! i)) @ '': '' @
        to_string rt (thread_name (threads ! i)) @ '' '' @
        to_string rt (label (filterThreadInfo (threads ! i) event)) @ '' '' @
        to_string rt (filename (filterThreadInfo (threads ! i) event)) \<and>
      sublist (to_string rt (thread_id (threads ! i)))
        (item_value
           (ThreadSelector_items filterThreadInfo getThreadException rt threads event ! i)) \<and>
      sublist (to_string rt (thread_name (threads ! i)))
        (item_value
           (ThreadSelector_items filterThreadInfo getThreadException rt threads event ! i)) \<and>
      sublist (to_string rt (label (filterThreadInfo (threads ! i) event)))
        (item_value
           (ThreadSelector_items filterThreadInfo getThreadException rt threads event ! i)) \<and>
      sublist (to_string rt (filename (filterThreadInfo (threads ! i) event)))
        (item_value
           (ThreadSelector_items filterThreadInfo getThreadException rt threads event ! i)) \<and>
      option_crashedInfo
          (item_label
             (ThreadSelector_items filterThreadInfo getThreadException rt threads event ! i)) =
        (if truthy (crashed (threads ! i)) then Some (getThreadException (threads ! i) event)
         else None) \<and>
      (option_crashedInfo
          (item_label
             (ThreadSelector_items filterThreadInfo getThreadException rt threads event ! i))
         \<noteq> None \<longleftrightarrow> truthy (crashed (threads ! i))))"
proof (intro conjI allI impI)
  show "length (ThreadSelector_items filterThreadInfo getThreadException rt threads event) =
     length threads"
    by (simp add: ThreadSelector_items_def)
next
  fix i
  assume i: "i < length threads"
  then have nth:
    "ThreadSelector_items filterThreadInfo getThreadException rt threads event ! i =
       getDropDownItem filterThreadInfo getThreadException rt event (threads ! i)"
    by (simp add: ThreadSelector_items_def)
  show "item_thread
      (ThreadSelector_items filterThreadInfo getThreadException rt threads event ! i) =
      threads ! i"
    by (simp only: nth getDropDownItem_thread)
  show "item_threadInfo
      (ThreadSelector_items filterThreadInfo getThreadException rt threads event ! i) =
      filterThreadInfo (threads ! i) event"
    by (simp only: nth getDropDownItem_thread)
  show "item_value
      (ThreadSelector_items filterThreadInfo getThreadException rt threads event ! i) =
      ''#'' @ to_string rt (thread_id (threads ! i)) @ '': '' @
      to_string rt (thread_name (threads ! i)) @ '' '' @
      to_string rt (label (filterThreadInfo (threads ! i) event)) @ '' '' @
      to_string rt (filename (filterThreadInfo (threads ! i) event))"
    by (simp only: nth getDropDownItem_value)
  show "sublist (to_string rt (thread_id (threads ! i)))
      (item_value
         (ThreadSelector_items filterThreadInfo getThreadException rt threads event ! i))"
    by (simp only: nth getDropDownItem_parts)
  show "sublist (to_string rt (thread_name (threads ! i)))
      (item_value
         (ThreadSelector_items filterThreadInfo getThreadException rt threads event ! i))"
    by (simp only: nth getDropDownItem_parts)
  show "sublist (to_string rt (label (filterThreadInfo (threads ! i) event)))
      (item_value
         (ThreadSelector_items filterThreadInfo getThreadException rt threads event ! i))"
    by (simp only: nth getDropDownItem_parts)
  show "sublist (to_string rt (filename (filterThreadInfo (threads ! i) event)))
      (item_value
         (ThreadSelector_items filterThreadInfo getThreadException rt threads event ! i))"
    by (simp only: nth getDropDownItem_parts)
  show "option_crashedInfo
      (item_label
         (ThreadSelector_items filterThreadInfo getThreadException rt threads event ! i)) =
      (if truthy (crashed (threads ! i)) then Some (getThreadException (threads ! i) event)
       else None)"
    by (simp only: nth getDropDownItem_crashedInfo)
  show "option_crashedInfo
      (item_label
         (ThreadSelector_items filterThreadInfo getThreadException rt threads event ! i))
     \<noteq> None \<longleftrightarrow> truthy (crashed (threads ! i))"
    by (simp add: nth getDropDownItem_crashedInfo)
qed

lemma number_str_small: "number_str rt (Fin 1) = ''1''" "number_str rt (Fin 2) = ''2''"
  by code_simp+

theorem ThreadSelector_entries_witness:
  "map item_value
     (ThreadSelector_items
        (\<lambda>thread event. \<lparr>label = Str ''main'', filename = Str ''app.js''\<rparr>)
        (\<lambda>thread event. ''SIGSEGV'') example_runtime
        [\<lparr>thread_id = Num (Fin 1), thread_name = Str ''ui'', crashed = Bool False\<rparr>,
         \<lparr>thread_id = Num (Fin 2), thread_name = Str ''worker'', crashed = Bool True\<rparr>]
        ()) =
     [''#1: ui main app.js'', ''#2: worker main app.js''] \<and>
   map (\<lambda>item. option_crashedInfo (item_label item))
     (ThreadSelector_items
        (\<lambda>thread event. \<lparr>label = Str ''main'', filename = Str ''app.js''\<rparr>)
        (\<lambda>thread event. ''SIGSEGV'') example_runtime
        [\<lparr>thread_id = Num (Fin 1), thread_name = Str ''ui'', crashed = Bool False\<rparr>,
         \<lparr>thread_id = Num (Fin 2), thread_name = Str ''worker'', crashed = Bool True\<rparr>]
        ()) =
     [None, Some ''SIGSEGV'']"
proof -
  let ?threads =
    "[\<lparr>thread_id = Num (Fin 1), thread_name = Str ''ui'', crashed = Bool False\<rparr>,
      \<lparr>thread_id = Num (Fin 2), thread_name = Str ''worker'', crashed = Bool True\<rparr>]"
  let ?items =
    "ThreadSelector_items
       (\<lambda>thread event. \<lparr>label = Str ''main'', filename = Str ''app.js''\<rparr>)
       (\<lambda>thread event. ''SIGSEGV'') example_runtime ?threads ()"
  note entries = ThreadSelector_entries
    [of "\<lambda>thread event. \<lparr>label = Str ''main'', filename = Str ''app.js''\<rparr>"
      "\<lambda>thread event. ''SIGSEGV''" example_runtime ?threads "()"]
  from entries have len: "length ?items = 2" by simp
  from entries have "\<forall>i < 2. item_value (?items ! i) =
      ''#'' @ to_string example_runtime (thread_id (?threads ! i)) @ '': '' @
      to_string example_runtime (thread_name (?threads ! i)) @ '' main app.js''"
    by simp
  then have "item_value (?items ! 0) = ''#1: ui main app.js''"
    and "item_value (?items ! 1) = ''#2: worker main app.js''"
    by (simp_all add: number_str_small)
  with len have v: "map item_value ?items = [''#1: ui main app.js'', ''#2: worker main app.js'']"
    by (simp add: list_eq_iff_nth_eq less_Suc_eq numeral_2_eq_2)
  from entries have "\<forall>i < 2. option_crashedInfo (item_label (?items ! i)) =
      (if truthy (crashed (?threads ! i)) then Some ''SIGSEGV'' else None)"
    by simp
  then have "option_crashedInfo (item_label (?items ! 0)) = None"
    and "option_crashedInfo (item_label (?items ! 1)) = Some ''SIGSEGV''"
    by simp_all
  with len have c: "map (\<lambda>item. option_crashedInfo (item_label item)) ?items =
      [None, Some ''SIGSEGV'']"
    by (simp add: list_eq_iff_nth_eq less_Suc_eq numeral_2_eq_2)
  from v c show ?thesis by (rule conjI)
qed

end
